theory Spec2Isabelle
  imports Complex_Main
begin

section \<open>Data model of the marketplace backend (server.py)\<close>

text \<open>
  The backend keeps its data in a document store. Every collection is modelled as the list
  of its documents in the store's natural order: \<open>find_one\<close> returns the first match,
  \<open>update_one\<close> and \<open>delete_one\<close> act on the first match, \<open>delete_many\<close> on every
  match. Documents are records whose fields are those written by the handlers that insert
  them (\<open>create_ad\<close>, \<open>register\<close>, \<open>login\<close>, \<open>google_session\<close>, \<open>create_payment_order\<close>,
  \<open>add_favorite\<close>, \<open>send_message\<close>).

  A point in time (Python's aware \<open>datetime\<close>, resolution one microsecond) is the number of
  microseconds since the epoch. The handlers store instants as ISO strings and read them
  back with \<open>datetime.fromisoformat\<close>; the model stores the instant itself. Every call of
  \<open>datetime.now(timezone.utc)\<close> in a handler is a separate parameter of the model, named
  after the place of the call.
\<close>

type_synonym datetime = int

text \<open>Values that arrive as JSON and are stored without validation.\<close>

datatype json =
    JNull
  | JBool bool
  | JNum real
  | JStr string
  | JArr "json list"
  | JObj "(string \<times> json) list"

text \<open>Python's truth value of a JSON value (\<open>if x:\<close>); \<open>None\<close> when a key is absent.\<close>

fun truthy :: "json \<Rightarrow> bool" where
  "truthy JNull = False"
| "truthy (JBool b) = b"
| "truthy (JNum n) = (n \<noteq> 0)"
| "truthy (JStr s) = (s \<noteq> [])"
| "truthy (JArr xs) = (xs \<noteq> [])"
| "truthy (JObj kvs) = (kvs \<noteq> [])"

text \<open>\<open>d.get(k)\<close> on a dictionary that came from JSON: absent keys give \<open>None\<close>, here \<open>JNull\<close>.\<close>

definition dict_get :: "(string \<times> json) list \<Rightarrow> string \<Rightarrow> json" where
  "dict_get d k = (case map_of d k of None \<Rightarrow> JNull | Some v \<Rightarrow> v)"

record user =
  user_id :: string
  email :: "string option"
  password_hash :: "string option"
  name :: "string option"
  phone :: "string option"
  picture :: "string option"
  role :: string
  referral_code :: "string option"
  referral_count :: "int option"
  created_at :: datetime

record session =
  user_id :: string
  session_token :: string
  expires_at :: datetime
  created_at :: datetime

record ad =
  ad_id :: string
  user_id :: string
  title :: json
  description :: json
  category_id :: json
  subcategory_id :: json
  city_id :: json
  price :: json
  price_type :: json
  contact_phone :: json
  contact_email :: json
  images :: json
  details :: json
  status :: string
  is_boosted :: bool
  boost_expires_at :: "datetime option"
  is_promoted :: bool
  promote_expires_at :: "datetime option"
  views :: int
  is_paid :: bool
  auto_topup :: json
  topup_rank :: real
  last_topup :: "datetime option"
  favorites_count :: "int option"
  created_at :: datetime
  updated_at :: datetime

record payment =
  payment_id :: string
  order_code :: json
  ad_id :: json
  user_id :: string
  payment_type :: string
  amount :: int
  status :: string
  created_at :: datetime
  transaction_id :: json
  completed_at :: "datetime option"

record favorite =
  favorite_id :: string
  user_id :: string
  ad_id :: string
  ad_price :: json
  created_at :: datetime

record message =
  message_id :: string
  conversation_id :: string
  sender_id :: string
  receiver_id :: json
  content :: json
  is_read :: bool
  created_at :: datetime

record db =
  users :: "user list"
  user_sessions :: "session list"
  ads :: "ad list"
  payments :: "payment list"
  favorites :: "favorite list"
  messages :: "message list"

subsection \<open>Store primitives\<close>

text \<open>\<open>find_one\<close> is \<^const>\<open>List.find\<close>.\<close>

fun update_one :: "('a \<Rightarrow> bool) \<Rightarrow> ('a \<Rightarrow> 'a) \<Rightarrow> 'a list \<Rightarrow> 'a list" where
  "update_one P f [] = []"
| "update_one P f (x # xs) = (if P x then f x # xs else x # update_one P f xs)"

fun delete_one :: "('a \<Rightarrow> bool) \<Rightarrow> 'a list \<Rightarrow> 'a list" where
  "delete_one P [] = []"
| "delete_one P (x # xs) = (if P x then xs else x # delete_one P xs)"

definition delete_many :: "('a \<Rightarrow> bool) \<Rightarrow> 'a list \<Rightarrow> 'a list" where
  "delete_many P xs = filter (\<lambda>x. \<not> P x) xs"

subsection \<open>Errors, responses, requests\<close>

text \<open>
  \<open>HTTPException(status_code, detail)\<close>. The top-up cooldown message carries the number of
  minutes left, kept here as a number. An exception that no handler catches makes the
  framework answer 500.
\<close>

datatype detail = Detail string | TopupWait int

datatype error = HTTPException int detail | Unhandled string

fun status_code :: "error \<Rightarrow> int" where
  "status_code (HTTPException c d) = c"
| "status_code (Unhandled e) = 500"

datatype response = Json json | AdDocument ad "(string \<times> json) list"

record request =
  session_cookie :: "string option"
  authorization :: "string option"

text \<open>A scheduled \<open>send_email_notification(to_email, template_type, data)\<close> task.\<close>

record notification =
  to_email :: string
  template_type :: string
  data :: "(string \<times> json) list"

section \<open>Authentication\<close>

text \<open>
  \<open>auth_header.split(" ")[1]\<close> for a header that starts with \<open>"Bearer "\<close>: what stands
  between the first blank and the next one.
\<close>

definition bearer_token :: "string \<Rightarrow> string" where
  "bearer_token h = takeWhile (\<lambda>c. c \<noteq> CHR '' '') (drop 7 h)"

definition request_token :: "request \<Rightarrow> string option" where
  "request_token req =
     (let session_token = session_cookie req in
      if session_token \<noteq> None \<and> session_token \<noteq> Some []
      then session_token
      else (case authorization req of
              None \<Rightarrow> session_token
            | Some auth_header \<Rightarrow>
                if auth_header \<noteq> [] \<and> take 7 auth_header = ''Bearer ''
                then Some (bearer_token auth_header)
                else session_token))"

definition get_current_user :: "db \<Rightarrow> request \<Rightarrow> datetime \<Rightarrow> user option" where
  "get_current_user st req now =
     (case request_token req of
        None \<Rightarrow> None
      | Some tok \<Rightarrow>
          if tok = [] then None
          else (case find (\<lambda>s. session_token s = tok) (user_sessions st) of
                  None \<Rightarrow> None
                | Some sess \<Rightarrow>
                    if expires_at sess < now then None
                    else find (\<lambda>u. user.user_id u = session.user_id sess) (users st)))"

definition require_auth :: "db \<Rightarrow> request \<Rightarrow> datetime \<Rightarrow> error + user" where
  "require_auth st req now =
     (case get_current_user st req now of
        None \<Rightarrow> Inl (HTTPException 401 (Detail ''Not authenticated''))
      | Some usr \<Rightarrow> Inr usr)"

definition require_admin :: "db \<Rightarrow> request \<Rightarrow> datetime \<Rightarrow> error + user" where
  "require_admin st req now =
     (case require_auth st req now of
        Inl e \<Rightarrow> Inl e
      | Inr usr \<Rightarrow>
          if role usr \<noteq> ''admin''
          then Inl (HTTPException 403 (Detail ''Admin access required''))
          else Inr usr)"

section \<open>Top-up\<close>

text \<open>\<open>datetime.timestamp()\<close>: seconds since the epoch.\<close>

definition timestamp :: "datetime \<Rightarrow> real" where
  "timestamp t = real_of_int t / 1000000"

text \<open>Python's \<open>int(x)\<close> on a float: truncation towards zero.\<close>

definition py_int :: "real \<Rightarrow> int" where
  "py_int x = (if 0 \<le> x then \<lfloor>x\<rfloor> else \<lceil>x\<rceil>)"

text \<open>
  The cooldown check of \<open>topup_ad\<close> (the block under \<open># Check cooldown\<close>); \<open>t_check\<close> is the
  clock reading taken there. The result is the exception raised, if any.
\<close>

text \<open>\<open>user.get("referral_count", 0)\<close>\<close>

definition referrals :: "user \<Rightarrow> int" where
  "referrals usr = (case referral_count usr of None \<Rightarrow> 0 | Some n \<Rightarrow> n)"

definition topup_cooldown :: "user \<Rightarrow> ad \<Rightarrow> datetime \<Rightarrow> error option" where
  "topup_cooldown usr a t_check =
     (case last_topup a of
        None \<Rightarrow> None
      | Some last_topup_time \<Rightarrow>
          (let cooldown_minutes = (if referrals usr > 0 then 40 else 60 :: int);
               time_since_topup = real_of_int (t_check - last_topup_time) / 1000000 / 60
           in if time_since_topup < real_of_int cooldown_minutes
              then Some (HTTPException 400
                     (TopupWait (py_int (real_of_int cooldown_minutes - time_since_topup))))
              else None))"

definition topup_response :: "user \<Rightarrow> response" where
  "topup_response usr =
     Json (JObj [(''message'', JStr ''TopUp successful''),
                 (''next_topup_available_in'',
                  JNum (if referrals usr > 0 then 40 else 60))])"

text \<open>
  \<open>topup_ad\<close>: \<open>t_auth\<close> is the clock reading of the session check, \<open>t_check\<close> the one of
  the cooldown check, \<open>t_now\<close> the one under \<open># Perform topup\<close>. The handler returns its
  answer and the store it leaves behind.
\<close>

definition topup_ad ::
  "db \<Rightarrow> request \<Rightarrow> string \<Rightarrow> datetime \<Rightarrow> datetime \<Rightarrow> datetime \<Rightarrow> (error + response) \<times> db" where
  "topup_ad st req aid t_auth t_check t_now =
     (case require_auth st req t_auth of
        Inl e \<Rightarrow> (Inl e, st)
      | Inr usr \<Rightarrow>
          (case find (\<lambda>a. ad.ad_id a = aid) (ads st) of
             None \<Rightarrow> (Inl (HTTPException 404 (Detail ''Ad not found'')), st)
           | Some a \<Rightarrow>
               if ad.user_id a \<noteq> user.user_id usr
               then (Inl (HTTPException 403 (Detail ''Not your ad'')), st)
               else if ad.status a \<noteq> ''active''
               then (Inl (HTTPException 400 (Detail ''Ad must be active to topup'')), st)
               else (case topup_cooldown usr a t_check of
                       Some e \<Rightarrow> (Inl e, st)
                     | None \<Rightarrow>
                         (Inr (topup_response usr),
                          st\<lparr>ads := update_one (\<lambda>a. ad.ad_id a = aid)
                                      (\<lambda>a. a\<lparr>last_topup := Some t_now,
                                              topup_rank := timestamp t_now\<rparr>)
                                      (ads st)\<rparr>))))"


section \<open>Ad detail, with view counting\<close>

text \<open>
  The reference tables \<open>CATEGORIES\<close> and \<open>ROMANIAN_CITIES\<close> are long literal lists in the
  source; the handlers only search them by id, so they are parameters here.
\<close>

record subcategory =
  id' :: string
  name :: string

record category =
  id' :: string
  name :: string
  color :: string
  subcategories :: "subcategory list"

record city =
  id' :: string
  name :: string
  county :: string

definition VIEW_MILESTONES :: "int list" where
  "VIEW_MILESTONES = [100, 500, 1000, 5000, 10000]"

definition opt_str :: "string option \<Rightarrow> json" where
  "opt_str x = (case x of None \<Rightarrow> JNull | Some s \<Rightarrow> JStr s)"

definition site_url :: json where
  "site_url = JStr ''https://x67digital.com''"

text \<open>
  The \<open>for milestone in VIEW_MILESTONES\<close> loop of \<open>get_ad\<close>, with its \<open>break\<close>: the result
  is the list of notification tasks it schedules.
\<close>

fun milestone_loop ::
  "db \<Rightarrow> ad \<Rightarrow> string \<Rightarrow> int \<Rightarrow> int \<Rightarrow> int list \<Rightarrow> notification list" where
  "milestone_loop st a aid old_views new_views [] = []"
| "milestone_loop st a aid old_views new_views (milestone # rest) =
     (if old_views < milestone \<and> milestone \<le> new_views
      then (case find (\<lambda>u. user.user_id u = ad.user_id a) (users st) of
              None \<Rightarrow> []
            | Some owner \<Rightarrow>
                (case email owner of
                   None \<Rightarrow> []
                 | Some e \<Rightarrow>
                     if e = [] then []
                     else [\<lparr>to_email = e, template_type = ''views_milestone'',
                            data = [(''user_name'', opt_str (user.name owner)),
                                    (''ad_title'', title a),
                                    (''ad_id'', JStr aid),
                                    (''milestone'', JNum (real_of_int milestone)),
                                    (''site_url'', site_url)]\<rparr>]))
      else milestone_loop st a aid old_views new_views rest)"

text \<open>The keys \<open>get_ad\<close> adds to the document it returns; none of them is stored.\<close>

definition enrich_category :: "category list \<Rightarrow> ad \<Rightarrow> (string \<times> json) list" where
  "enrich_category cats a =
     (case find (\<lambda>c. JStr (category.id' c) = category_id a) cats of
        None \<Rightarrow> []
      | Some cat \<Rightarrow>
          [(''category_name'', JStr (category.name cat)),
           (''category_color'', JStr (color cat))]
          @ (if truthy (subcategory_id a)
             then (case find (\<lambda>s. JStr (subcategory.id' s) = subcategory_id a)
                          (subcategories cat) of
                     None \<Rightarrow> []
                   | Some subcat \<Rightarrow> [(''subcategory_name'', JStr (subcategory.name subcat))])
             else []))"

definition enrich_city :: "city list \<Rightarrow> ad \<Rightarrow> (string \<times> json) list" where
  "enrich_city cities a =
     (case find (\<lambda>c. JStr (city.id' c) = city_id a) cities of
        None \<Rightarrow> []
      | Some c \<Rightarrow> [(''city_name'', JStr (city.name c)), (''city_county'', JStr (county c))])"

definition enrich_user :: "db \<Rightarrow> ad \<Rightarrow> (string \<times> json) list" where
  "enrich_user st a =
     (case find (\<lambda>u. user.user_id u = ad.user_id a) (users st) of
        None \<Rightarrow> []
      | Some usr \<Rightarrow> [(''user_name'', opt_str (user.name usr)),
                     (''user_picture'', opt_str (picture usr))])"

text \<open>
  \<open>get_ad\<close> takes no request: it reads neither cookie nor header. It returns the document
  as read before the increment, the store after it, and the scheduled notifications.
\<close>

definition get_ad ::
  "category list \<Rightarrow> city list \<Rightarrow> db \<Rightarrow> string
     \<Rightarrow> (error + response) \<times> db \<times> notification list" where
  "get_ad cats cities st aid =
     (case find (\<lambda>a. ad.ad_id a = aid) (ads st) of
        None \<Rightarrow> (Inl (HTTPException 404 (Detail ''Ad not found'')), st, [])
      | Some a \<Rightarrow>
          (let old_views = views a;
               new_views = old_views + 1;
               st' = st\<lparr>ads := update_one (\<lambda>a. ad.ad_id a = aid)
                                  (\<lambda>a. a\<lparr>views := views a + 1\<rparr>) (ads st)\<rparr>;
               ns = milestone_loop st' a aid old_views new_views VIEW_MILESTONES
           in (Inr (AdDocument a (enrich_category cats a @ enrich_city cities a
                                   @ enrich_user st' a)),
               st', ns)))"

section \<open>Ad update\<close>

text \<open>
  \<open>$set\<close> of one of the fields a client may send. The request body is a JSON object, given
  as its list of members; values are stored as they come.
\<close>

definition set_field :: "string \<Rightarrow> json \<Rightarrow> ad \<Rightarrow> ad" where
  "set_field f v a =
     (if f = ''title'' then a\<lparr>title := v\<rparr>
      else if f = ''description'' then a\<lparr>description := v\<rparr>
      else if f = ''price'' then a\<lparr>price := v\<rparr>
      else if f = ''price_type'' then a\<lparr>price_type := v\<rparr>
      else if f = ''contact_phone'' then a\<lparr>contact_phone := v\<rparr>
      else if f = ''contact_email'' then a\<lparr>contact_email := v\<rparr>
      else if f = ''details'' then a\<lparr>details := v\<rparr>
      else if f = ''images'' then a\<lparr>images := v\<rparr>
      else a)"

definition update_ad_fields :: "string list" where
  "update_ad_fields = [''title'', ''description'', ''price'', ''price_type'',
                       ''contact_phone'', ''contact_email'', ''details'', ''images'']"

text \<open>
  The loop \<open>for field in [...]: if field in body: update_fields[field] = body[field]\<close>
  over a list of field names, and the dictionary \<open>update_fields\<close> it builds in
  \<open>update_ad\<close>, before \<open>updated_at\<close> is added.
\<close>

definition pick_fields :: "(string \<times> json) list \<Rightarrow> string list \<Rightarrow> (string \<times> json) list" where
  "pick_fields body fs =
     concat (map (\<lambda>f. case map_of body f of None \<Rightarrow> [] | Some v \<Rightarrow> [(f, v)]) fs)"

definition update_fields :: "(string \<times> json) list \<Rightarrow> (string \<times> json) list" where
  "update_fields body = pick_fields body update_ad_fields"

definition apply_update :: "(string \<times> json) list \<Rightarrow> datetime \<Rightarrow> ad \<Rightarrow> ad" where
  "apply_update fs now a = (fold (\<lambda>(f, v). set_field f v) fs a)\<lparr>updated_at := now\<rparr>"

definition update_ad ::
  "db \<Rightarrow> request \<Rightarrow> string \<Rightarrow> (string \<times> json) list \<Rightarrow> datetime \<Rightarrow> datetime
     \<Rightarrow> (error + response) \<times> db" where
  "update_ad st req aid body t_auth t_now =
     (case require_auth st req t_auth of
        Inl e \<Rightarrow> (Inl e, st)
      | Inr usr \<Rightarrow>
          (case find (\<lambda>a. ad.ad_id a = aid) (ads st) of
             None \<Rightarrow> (Inl (HTTPException 404 (Detail ''Ad not found'')), st)
           | Some a \<Rightarrow>
               if ad.user_id a \<noteq> user.user_id usr \<and> role usr \<noteq> ''admin''
               then (Inl (HTTPException 403 (Detail ''Not authorized'')), st)
               else (Inr (Json (JObj [(''message'', JStr ''Ad updated'')])),
                     st\<lparr>ads := update_one (\<lambda>a. ad.ad_id a = aid)
                                 (apply_update (update_fields body) t_now) (ads st)\<rparr>)))"

section \<open>Payment webhook\<close>

text \<open>
  A filter \<open>{"ad_id": v}\<close> or \<open>{"order_code": v}\<close> whose value comes from the request is
  an equality match: a stored id is a string, so only a string value names an ad. (An
  object or array value would be read by the store as a query document or matched against
  array elements; the properties below that depend on a match are stated for string ids
  and scalar order codes.)
\<close>

fun scalar :: "json \<Rightarrow> bool" where
  "scalar (JArr xs) = False"
| "scalar (JObj kvs) = False"
| "scalar v = True"

definition ad_named :: "json \<Rightarrow> ad \<Rightarrow> bool" where
  "ad_named v a = (v = JStr (ad.ad_id a))"

definition received :: response where
  "received = Json (JObj [(''status'', JStr ''received'')])"

definition anunt :: string where
  "anunt = ''Anun'' @ [CHR 0xC8, CHR 0x9B]"

text \<open>
  The block under \<open>if status_id == "F"\<close>, for a correlation blob that is a dictionary
  \<open>trns\<close>. \<open>t_completed\<close> is the clock reading stored in \<open>completed_at\<close>, \<open>t_expiry\<close> the
  one the expiry of a boost or promotion is counted from. The amount in the confirmation
  mail is the number of currency units; its rendering with two decimals is the template's.
\<close>

definition webhook_finished ::
  "db \<Rightarrow> json \<Rightarrow> json \<Rightarrow> (string \<times> json) list \<Rightarrow> datetime \<Rightarrow> datetime
     \<Rightarrow> db \<times> notification list" where
  "webhook_finished st tid oc trns t_completed t_expiry =
     (let aid = dict_get trns ''ad_id'';
          ptype = dict_get trns ''payment_type'';
          paym = find (\<lambda>p. payment.order_code p = oc) (payments st);
          st1 = st\<lparr>payments := update_one (\<lambda>p. payment.order_code p = oc)
                      (\<lambda>p. p\<lparr>payment.status := ''completed'',
                              transaction_id := tid,
                              completed_at := Some t_completed\<rparr>) (payments st)\<rparr>;
          st2 = (if ptype = JStr ''post_ad''
                 then st1\<lparr>ads := update_one (ad_named aid)
                        (\<lambda>a. a\<lparr>is_paid := True, ad.status := ''pending''\<rparr>) (ads st1)\<rparr>
                 else if ptype = JStr ''boost''
                 then st1\<lparr>ads := update_one (ad_named aid)
                        (\<lambda>a. a\<lparr>is_boosted := True,
                                boost_expires_at := Some (t_expiry + 86400000000)\<rparr>) (ads st1)\<rparr>
                 else if ptype = JStr ''promote''
                 then st1\<lparr>ads := update_one (ad_named aid)
                        (\<lambda>a. a\<lparr>is_promoted := True,
                                promote_expires_at := Some (t_expiry + 7 * 86400000000)\<rparr>) (ads st1)\<rparr>
                 else st1);
          ns = (case paym of
                  None \<Rightarrow> []
                | Some p \<Rightarrow>
                    if truthy aid
                    then (case find (\<lambda>u. user.user_id u = payment.user_id p) (users st2) of
                            None \<Rightarrow> []
                          | Some usr \<Rightarrow>
                              (case email usr of
                                 None \<Rightarrow> []
                               | Some e \<Rightarrow>
                                   if e = [] then []
                                   else [\<lparr>to_email = e, template_type = ''payment_success'',
                                          data = [(''user_name'', opt_str (user.name usr)),
                                                  (''payment_type'', ptype),
                                                  (''amount'', JNum (real_of_int (amount p) / 100)),
                                                  (''ad_title'',
                                                   (case find (ad_named aid) (ads st2) of
                                                      None \<Rightarrow> JStr anunt
                                                    | Some a \<Rightarrow> title a)),
                                                  (''ad_id'', aid),
                                                  (''site_url'', site_url)]\<rparr>]))
                    else [])
      in (st2, ns))"

text \<open>
  The correlation data of a delivery: \<open>json.loads\<close> of \<open>MerchantTrns\<close> (default
  \<open>"{}"\<close>) inside \<open>try\<close>, with \<open>{}\<close> when it raises. \<open>json_loads\<close> is the library's
  \<open>json.loads\<close> on a string (\<open>None\<close> when it raises), a parameter; on a value that is
  not a string it raises \<open>TypeError\<close>, which the bare \<open>except\<close> catches as well.
\<close>

definition merchant_data :: "(string \<Rightarrow> json option) \<Rightarrow> (string \<times> json) list \<Rightarrow> json" where
  "merchant_data json_loads event_data =
     (case (case map_of event_data ''MerchantTrns'' of None \<Rightarrow> JStr ''{}'' | Some v \<Rightarrow> v) of
        JStr s \<Rightarrow> (case json_loads s of None \<Rightarrow> JObj [] | Some v \<Rightarrow> v)
      | _ \<Rightarrow> JObj [])"

text \<open>
  \<open>payment_webhook\<close>. The body is the parsed JSON of the request. Calling \<open>.get\<close> on a
  value that is not a dictionary raises \<open>AttributeError\<close>, which nothing catches.
\<close>

definition payment_webhook ::
  "(string \<Rightarrow> json option) \<Rightarrow> db \<Rightarrow> json \<Rightarrow> datetime \<Rightarrow> datetime
     \<Rightarrow> (error + response) \<times> db \<times> notification list" where
  "payment_webhook json_loads st body t_completed t_expiry =
     (case body of
        JObj b \<Rightarrow>
          (case (case map_of b ''EventData'' of None \<Rightarrow> JObj [] | Some v \<Rightarrow> v) of
             JObj event_data \<Rightarrow>
               (let tid = dict_get event_data ''TransactionId'';
                    oc = dict_get event_data ''OrderCode'';
                    status_id = dict_get event_data ''StatusId''
                in (case merchant_data json_loads event_data of
                      JObj trns \<Rightarrow>
                        if status_id = JStr ''F''
                        then (case webhook_finished st tid oc trns t_completed t_expiry of
                                (st', ns) \<Rightarrow> (Inr received, st', ns))
                        else (Inr received, st, [])
                    | _ \<Rightarrow> (Inl (Unhandled ''AttributeError''), st, [])))
           | _ \<Rightarrow> (Inl (Unhandled ''AttributeError''), st, []))
      | _ \<Rightarrow> (Inl (Unhandled ''AttributeError''), st, []))"

section \<open>Deleting a user\<close>

definition admin_delete_user ::
  "db \<Rightarrow> request \<Rightarrow> string \<Rightarrow> datetime \<Rightarrow> (error + response) \<times> db" where
  "admin_delete_user st req uid t_auth =
     (case require_admin st req t_auth of
        Inl e \<Rightarrow> (Inl e, st)
      | Inr admin \<Rightarrow>
          if user.user_id admin = uid
          then (Inl (HTTPException 400 (Detail ''Cannot delete your own account'')), st)
          else (Inr (Json (JObj [(''message'', JStr ''User and all associated data deleted'')])),
                st\<lparr>ads := delete_many (\<lambda>a. ad.user_id a = uid) (ads st),
                   user_sessions := delete_many (\<lambda>s. session.user_id s = uid) (user_sessions st),
                   users := delete_one (\<lambda>u. user.user_id u = uid) (users st)\<rparr>))"

section \<open>Listing\<close>

text \<open>The query dictionary: a field maps to a value to equal, a regex, comparison
  operators, or (under \<open>$or\<close>) a list of alternative sub-queries.\<close>

datatype qval =
    Equals json
  | Regex string string
  | Ops "(string \<times> real) list"
  | Alternatives "(string \<times> qval) list list"

definition nonempty :: "string option \<Rightarrow> bool" where
  "nonempty x = (case x of None \<Rightarrow> False | Some s \<Rightarrow> s \<noteq> [])"

definition get_ads_query ::
  "string option \<Rightarrow> string option \<Rightarrow> string option \<Rightarrow> string option
     \<Rightarrow> real option \<Rightarrow> real option \<Rightarrow> (string \<times> qval) list" where
  "get_ads_query p_category p_subcategory p_city p_search min_price max_price =
     [(''status'', Equals (JStr ''active''))]
     @ (if nonempty p_category then [(''category_id'', Equals (opt_str p_category))] else [])
     @ (if nonempty p_subcategory then [(''subcategory_id'', Equals (opt_str p_subcategory))] else [])
     @ (if nonempty p_city then [(''city_id'', Equals (opt_str p_city))] else [])
     @ (case p_search of
          None \<Rightarrow> []
        | Some s \<Rightarrow> if s = [] then []
                    else [(''$or'', Alternatives [[(''title'', Regex s ''i'')],
                                                  [(''description'', Regex s ''i'')]])])
     @ (if min_price = None \<and> max_price = None then []
        else [(''price'', Ops ((case min_price of None \<Rightarrow> [] | Some m \<Rightarrow> [(''$gte'', m)])
                              @ (case max_price of None \<Rightarrow> [] | Some m \<Rightarrow> [(''$lte'', m)])))])"

definition sort_options :: "string \<Rightarrow> (string \<times> int) list option" where
  "sort_options = map_of
     [(''newest'', [(''topup_rank'', -1), (''created_at'', -1)]),
      (''oldest'', [(''created_at'', 1)]),
      (''price_low'', [(''topup_rank'', -1), (''price'', 1)]),
      (''price_high'', [(''topup_rank'', -1), (''price'', -1)]),
      (''boosted'', [(''topup_rank'', -1), (''is_boosted'', -1),
                     (''boost_expires_at'', -1), (''created_at'', -1)])]"

definition get_ads_sort_by :: "string option \<Rightarrow> string \<Rightarrow> (string \<times> int) list" where
  "get_ads_sort_by p_category sort_mode =
     (let sort_by = (case sort_options sort_mode of
                       None \<Rightarrow> [(''topup_rank'', -1), (''created_at'', -1)]
                     | Some s \<Rightarrow> s)
      in if p_category = Some ''escorts''
         then [(''topup_rank'', -1), (''is_boosted'', -1)]
              @ filter (\<lambda>s. fst s \<notin> set [''topup_rank'', ''is_boosted'']) sort_by
         else sort_by)"

subsection \<open>What the store does with a query and a sort specification\<close>

text \<open>
  The store's \<open>find(query).sort(sort_by)\<close>. A document matches when every entry of the
  query holds for it. The \<open>status\<close> of an ad is always one of the handlers' own string
  constants, so its entry is decided here; how the store matches the fields that hold
  unvalidated client JSON (\<open>other\<close>) and how it orders two such values (\<open>bson\<close>) are
  parameters. Sorting compares the listed keys in turn, direction \<open>1\<close> ascending and
  \<open>-1\<close> descending; \<open>null\<close> sorts before every instant. Instants are stored as ISO
  strings of one fixed layout, whose order is the order of the instants.
\<close>

datatype order3 = Before | Same | After

definition compare3 :: "'a::linorder \<Rightarrow> 'a \<Rightarrow> order3" where
  "compare3 x y = (if x < y then Before else if x = y then Same else After)"

fun compare_opt :: "datetime option \<Rightarrow> datetime option \<Rightarrow> order3" where
  "compare_opt None None = Same"
| "compare_opt None (Some y) = Before"
| "compare_opt (Some x) None = After"
| "compare_opt (Some x) (Some y) = compare3 x y"

definition field_compare :: "(json \<Rightarrow> json \<Rightarrow> order3) \<Rightarrow> string \<Rightarrow> ad \<Rightarrow> ad \<Rightarrow> order3" where
  "field_compare bson f a b =
     (if f = ''topup_rank'' then compare3 (topup_rank a) (topup_rank b)
      else if f = ''is_boosted'' then compare3 (is_boosted a) (is_boosted b)
      else if f = ''created_at'' then compare3 (ad.created_at a) (ad.created_at b)
      else if f = ''boost_expires_at'' then compare_opt (boost_expires_at a) (boost_expires_at b)
      else if f = ''price'' then bson (price a) (price b)
      else Same)"

fun key_compare ::
  "(json \<Rightarrow> json \<Rightarrow> order3) \<Rightarrow> (string \<times> int) list \<Rightarrow> ad \<Rightarrow> ad \<Rightarrow> order3" where
  "key_compare bson [] a b = Same"
| "key_compare bson ((f, d) # ks) a b =
     (case field_compare bson f a b of
        Same \<Rightarrow> key_compare bson ks a b
      | Before \<Rightarrow> (if d = 1 then Before else After)
      | After \<Rightarrow> (if d = 1 then After else Before))"

fun insert_doc :: "('a \<Rightarrow> 'a \<Rightarrow> order3) \<Rightarrow> 'a \<Rightarrow> 'a list \<Rightarrow> 'a list" where
  "insert_doc c x [] = [x]"
| "insert_doc c x (y # ys) = (if c x y = After then y # insert_doc c x ys else x # y # ys)"

definition sort_docs :: "('a \<Rightarrow> 'a \<Rightarrow> order3) \<Rightarrow> 'a list \<Rightarrow> 'a list" where
  "sort_docs c xs = foldr (insert_doc c) xs []"

definition doc_matches ::
  "(string \<Rightarrow> qval \<Rightarrow> ad \<Rightarrow> bool) \<Rightarrow> (string \<times> qval) list \<Rightarrow> ad \<Rightarrow> bool" where
  "doc_matches other q a =
     list_all (\<lambda>(k, v). if k = ''status'' then v = Equals (JStr (ad.status a))
                         else other k v a) q"

subsection \<open>The handler\<close>

record listing =
  ads_page :: "(ad \<times> (string \<times> json) list) list"
  total :: int
  page :: int
  pages :: int

definition enrich_listed :: "category list \<Rightarrow> city list \<Rightarrow> ad \<Rightarrow> (string \<times> json) list" where
  "enrich_listed cats cities a =
     enrich_category cats a
     @ (case find (\<lambda>c. JStr (city.id' c) = city_id a) cities of
          None \<Rightarrow> []
        | Some c \<Rightarrow> [(''city_name'', JStr (city.name c))])"

text \<open>
  \<open>get_ads\<close>. The driver raises \<open>ValueError\<close> for a negative \<open>skip\<close> and for a negative
  length of \<open>to_list\<close>; with \<open>limit = 0\<close> the page count divides by zero. Nothing catches
  either.
\<close>

definition get_ads ::
  "(json \<Rightarrow> json \<Rightarrow> order3) \<Rightarrow> (string \<Rightarrow> qval \<Rightarrow> ad \<Rightarrow> bool) \<Rightarrow> category list \<Rightarrow> city list
     \<Rightarrow> db \<Rightarrow> string option \<Rightarrow> string option \<Rightarrow> string option \<Rightarrow> string option
     \<Rightarrow> real option \<Rightarrow> real option \<Rightarrow> string \<Rightarrow> int \<Rightarrow> int \<Rightarrow> error + listing" where
  "get_ads bson other cats cities st p_category p_subcategory p_city p_search
           min_price max_price sort_mode p_page limit =
     (let query = get_ads_query p_category p_subcategory p_city p_search min_price max_price;
          sort_by = get_ads_sort_by p_category sort_mode;
          skip = (p_page - 1) * limit
      in if skip < 0 \<or> limit < 0 then Inl (Unhandled ''ValueError'')
         else if limit = 0 then Inl (Unhandled ''ZeroDivisionError'')
         else (let found = filter (doc_matches other query) (ads st);
                   docs = take (nat limit) (drop (nat skip)
                            (sort_docs (key_compare bson sort_by) found));
                   n = int (length found)
               in Inr \<lparr>ads_page = map (\<lambda>a. (a, enrich_listed cats cities a)) docs,
                       total = n, page = p_page,
                       pages = (n + limit - 1) div limit\<rparr>))"

subsection \<open>Orders on listed ads\<close>

text \<open>
  ``Ordered by \<open>topup_rank\<close> descending'': an earlier ad has a rank at least that of a
  later one. ``By \<open>topup_rank\<close> descending, then \<open>is_boosted\<close> descending'': of two ads
  with equal rank, a boosted one does not come after one that is not.
\<close>

definition by_rank :: "ad \<Rightarrow> ad \<Rightarrow> bool" where
  "by_rank a b = (topup_rank b \<le> topup_rank a)"

definition by_rank_boost :: "ad \<Rightarrow> ad \<Rightarrow> bool" where
  "by_rank_boost a b =
     (topup_rank b < topup_rank a \<or> (topup_rank a = topup_rank b \<and> is_boosted b \<le> is_boosted a))"

section \<open>Notions used to state the properties\<close>

text \<open>The first milestone, in the order of the list, that lies in \<open>(old, new]\<close>.\<close>

definition lowest_crossed :: "int \<Rightarrow> int \<Rightarrow> int option" where
  "lowest_crossed old new = find (\<lambda>m. old < m \<and> m \<le> new) VIEW_MILESTONES"

text \<open>The address a notification for an ad can go to: the non-empty email of the user
  record found under the ad's \<open>user_id\<close>.\<close>

definition owner_address :: "db \<Rightarrow> ad \<Rightarrow> string option" where
  "owner_address st a =
     (case find (\<lambda>u. user.user_id u = ad.user_id a) (users st) of
        None \<Rightarrow> None
      | Some owner \<Rightarrow> (case email owner of
                        None \<Rightarrow> None
                      | Some e \<Rightarrow> if e = [] then None else Some e))"

text \<open>The store in which the ad found under an id has another moderation status.\<close>

definition with_status :: "string \<Rightarrow> string \<Rightarrow> db \<Rightarrow> db" where
  "with_status aid s st =
     st\<lparr>ads := update_one (\<lambda>x. ad.ad_id x = aid) (\<lambda>x. x\<lparr>ad.status := s\<rparr>) (ads st)\<rparr>"

text \<open>Reading one of the fields a client may update, by its name.\<close>

definition get_field :: "string \<Rightarrow> ad \<Rightarrow> json" where
  "get_field f a =
     (if f = ''title'' then title a
      else if f = ''description'' then description a
      else if f = ''price'' then price a
      else if f = ''price_type'' then price_type a
      else if f = ''contact_phone'' then contact_phone a
      else if f = ''contact_email'' then contact_email a
      else if f = ''details'' then details a
      else if f = ''images'' then images a
      else JNull)"

text \<open>
  An ad with the eight updatable fields and \<open>updated_at\<close> blanked: two ads agree on every
  other field exactly when their blanked versions are equal.
\<close>

definition outside_update :: "ad \<Rightarrow> ad" where
  "outside_update a =
     a\<lparr>title := JNull, description := JNull, price := JNull, price_type := JNull,
       contact_phone := JNull, contact_email := JNull, details := JNull, images := JNull,
       updated_at := 0\<rparr>"

section \<open>Sequences of requests\<close>

text \<open>
  To speak about successive top-ups of one ad, with other traffic in between: a request to
  one of the handlers above that write to the ads, with the clock readings it takes.
\<close>

datatype call =
    Topup string request datetime datetime datetime
  | View string
  | Update string request "(string \<times> json) list" datetime datetime
  | Webhook json datetime datetime

fun apply_call ::
  "(string \<Rightarrow> json option) \<Rightarrow> category list \<Rightarrow> city list \<Rightarrow> call \<Rightarrow> db \<Rightarrow> db" where
  "apply_call jl cats cities (Topup aid req t_auth t_check t_now) st =
     snd (topup_ad st req aid t_auth t_check t_now)"
| "apply_call jl cats cities (View aid) st = fst (snd (get_ad cats cities st aid))"
| "apply_call jl cats cities (Update aid req body t_auth t_now) st =
     snd (update_ad st req aid body t_auth t_now)"
| "apply_call jl cats cities (Webhook body t_completed t_expiry) st =
     fst (snd (payment_webhook jl st body t_completed t_expiry))"

text \<open>Whether a call is a top-up of the ad \<open>aid\<close> that succeeds in the store \<open>st\<close>.\<close>

fun topped_up :: "string \<Rightarrow> call \<Rightarrow> db \<Rightarrow> bool" where
  "topped_up aid (Topup aid' req t_auth t_check t_now) st =
     (aid' = aid \<and> isl (fst (topup_ad st req aid' t_auth t_check t_now)) = False)"
| "topped_up aid c st = False"

text \<open>The clock does not run backwards between the readings of one top-up request.\<close>

fun clock_forward :: "call \<Rightarrow> bool" where
  "clock_forward (Topup aid req t_auth t_check t_now) = (t_check \<le> t_now)"
| "clock_forward c = True"

text \<open>
  The \<open>topup_rank\<close> of the ad \<open>aid\<close> read right after each of its successful top-ups, in
  the order of the calls.
\<close>

fun topup_ranks ::
  "(string \<Rightarrow> json option) \<Rightarrow> category list \<Rightarrow> city list \<Rightarrow> string \<Rightarrow> db \<Rightarrow> call list
     \<Rightarrow> real list" where
  "topup_ranks jl cats cities aid st [] = []"
| "topup_ranks jl cats cities aid st (c # cs) =
     (let st' = apply_call jl cats cities c st
      in (if topped_up aid c st
          then (case find (\<lambda>a. ad.ad_id a = aid) (ads st') of
                  None \<Rightarrow> [] | Some a \<Rightarrow> [topup_rank a])
          else [])
         @ topup_ranks jl cats cities aid st' cs)"

text \<open>The \<open>last_topup\<close> of the ad found under an id, if there is one.\<close>

definition last_of :: "db \<Rightarrow> string \<Rightarrow> datetime option option" where
  "last_of st aid = map_option last_topup (find (\<lambda>a. ad.ad_id a = aid) (ads st))"

section \<open>A small store, for concrete runs\<close>

definition demo_user :: user where
  "demo_user = \<lparr>user.user_id = ''user_alice'', email = Some ''alice@example.com'',
     password_hash = Some ''h'', user.name = Some ''Alice'', phone = None, picture = None,
     role = ''user'', referral_code = None, referral_count = None,
     user.created_at = 1690000000000000\<rparr>"

definition demo_users :: "user list" where
  "demo_users =
     [demo_user,
      demo_user\<lparr>user.user_id := ''user_bob'', email := Some ''bob@example.com'',
                user.name := Some ''Bob'', referral_code := Some ''ref_user_bob'',
                referral_count := Some 2\<rparr>,
      demo_user\<lparr>user.user_id := ''user_carol'', email := None, password_hash := None,
                user.name := Some ''Carol''\<rparr>,
      demo_user\<lparr>user.user_id := ''user_root'', email := Some ''root@example.com'',
                user.name := Some ''Root'', role := ''admin''\<rparr>]"

definition demo_session :: "string \<Rightarrow> string \<Rightarrow> session" where
  "demo_session uid tok = \<lparr>session.user_id = uid, session_token = tok,
     expires_at = 1800000000000000, session.created_at = 1690000000000000\<rparr>"

definition demo_sessions :: "session list" where
  "demo_sessions =
     [demo_session ''user_alice'' ''tok_alice'', demo_session ''user_bob'' ''tok_bob'',
      demo_session ''user_carol'' ''tok_carol'', demo_session ''user_root'' ''tok_root'']"

definition demo_ad :: ad where
  "demo_ad = \<lparr>ad.ad_id = ''ad_1'', ad.user_id = ''user_alice'', title = JStr ''Bike'',
     description = JStr ''A bike'', category_id = JStr ''escorts'', subcategory_id = JNull,
     city_id = JStr ''cluj'', price = JNum 100, price_type = JStr ''fixed'',
     contact_phone = JNull, contact_email = JStr ''alice@example.com'', images = JArr [],
     details = JObj [], ad.status = ''active'', is_boosted = False, boost_expires_at = None,
     is_promoted = False, promote_expires_at = None, views = 99, is_paid = False,
     auto_topup = JBool True, topup_rank = 0, last_topup = None, favorites_count = None,
     ad.created_at = 1695000000000000, updated_at = 1695000000000000\<rparr>"

definition demo_ads :: "ad list" where
  "demo_ads =
     [demo_ad,
      demo_ad\<lparr>ad.ad_id := ''ad_2'', ad.user_id := ''user_bob'', ad.status := ''pending'',
              views := 7\<rparr>,
      demo_ad\<lparr>ad.ad_id := ''ad_3'', ad.user_id := ''user_bob'',
              last_topup := Some 1700000000000000, topup_rank := 1700000000, views := 100\<rparr>,
      demo_ad\<lparr>ad.ad_id := ''ad_4'', ad.user_id := ''user_carol'', ad.status := ''rejected''\<rparr>,
      demo_ad\<lparr>ad.ad_id := ''ad_5'', ad.user_id := ''user_alice'', is_boosted := True,
              last_topup := Some 1700000000000000, topup_rank := 1700000000\<rparr>]"

definition demo_payments :: "payment list" where
  "demo_payments =
     [\<lparr>payment_id = ''pay_1'', order_code = JNum 5001, payment.ad_id = JStr ''ad_3'',
       payment.user_id = ''user_bob'', payment_type = ''boost'', amount = 700,
       payment.status = ''pending'', payment.created_at = 1699000000000000,
       transaction_id = JNull, completed_at = None\<rparr>]"

definition demo_favorites :: "favorite list" where
  "demo_favorites =
     [\<lparr>favorite_id = ''fav_1'', favorite.user_id = ''user_bob'', favorite.ad_id = ''ad_1'',
       ad_price = JNum 100, favorite.created_at = 1698000000000000\<rparr>]"

definition demo_messages :: "message list" where
  "demo_messages =
     [\<lparr>message_id = ''msg_1'', conversation_id = ''conv_1'', sender_id = ''user_bob'',
       receiver_id = JStr ''user_alice'', content = JStr ''Hello'', is_read = False,
       message.created_at = 1698000000000000\<rparr>]"

definition demo_db :: db where
  "demo_db = \<lparr>users = demo_users, user_sessions = demo_sessions, ads = demo_ads,
     payments = demo_payments, favorites = demo_favorites, messages = demo_messages\<rparr>"

definition cookie_request :: "string \<Rightarrow> request" where
  "cookie_request tok = \<lparr>session_cookie = Some tok, authorization = None\<rparr>"

definition bearer_request :: "string \<Rightarrow> request" where
  "bearer_request tok = \<lparr>session_cookie = None, authorization = Some (''Bearer '' @ tok)\<rparr>"

definition anonymous_request :: request where
  "anonymous_request = \<lparr>session_cookie = None, authorization = None\<rparr>"

definition demo_calls :: "call list" where
  "demo_calls =
     [Topup ''ad_1'' (cookie_request ''tok_alice'') 1700000000000000 1700000000000001 1700000000000002,
      View ''ad_1'',
      Topup ''ad_1'' (cookie_request ''tok_alice'') 1700001800000000 1700001800000001 1700001800000002,
      Topup ''ad_3'' (bearer_request ''tok_bob'') 1700002400000000 1700002400000001 1700002400000002,
      Topup ''ad_1'' (cookie_request ''tok_alice'') 1700003600000000 1700003600000002 1700003600000003]"

text \<open>
  Webhook deliveries for the payment of the small store. \<open>demo_loads\<close> is \<open>json.loads\<close> on
  the few texts used here: the correlation blob written by \<open>create_payment_order\<close> for
  the third ad and a payment type, the empty array, and the empty object.
\<close>

definition dq :: string where
  "dq = [CHR 0x22]"

definition demo_blob :: "string \<Rightarrow> string" where
  "demo_blob ptype =
     ''{'' @ dq @ ''ad_id'' @ dq @ '': '' @ dq @ ''ad_3'' @ dq @ '', ''
     @ dq @ ''payment_type'' @ dq @ '': '' @ dq @ ptype @ dq @ '', ''
     @ dq @ ''user_id'' @ dq @ '': '' @ dq @ ''user_bob'' @ dq @ ''}''"

definition demo_trns :: "string \<Rightarrow> (string \<times> json) list" where
  "demo_trns ptype =
     [(''ad_id'', JStr ''ad_3''), (''payment_type'', JStr ptype), (''user_id'', JStr ''user_bob'')]"

definition demo_loads :: "string \<Rightarrow> json option" where
  "demo_loads s =
     (if s = demo_blob ''post_ad'' then Some (JObj (demo_trns ''post_ad''))
      else if s = demo_blob ''boost'' then Some (JObj (demo_trns ''boost''))
      else if s = demo_blob ''promote'' then Some (JObj (demo_trns ''promote''))
      else if s = ''[]'' then Some (JArr [])
      else if s = ''{}'' then Some (JObj [])
      else None)"

definition demo_event :: "string \<Rightarrow> string \<Rightarrow> (string \<times> json) list" where
  "demo_event status_id blob =
     [(''TransactionId'', JStr ''tx_1''), (''OrderCode'', JNum 5001),
      (''StatusId'', JStr status_id), (''MerchantTrns'', JStr blob)]"

definition demo_delivery :: "string \<Rightarrow> string \<Rightarrow> json" where
  "demo_delivery status_id blob = JObj [(''EventData'', JObj (demo_event status_id blob))]"

definition demo_body :: "(string \<times> json) list" where
  "demo_body = [(''title'', JStr ''New title''), (''status'', JStr ''active''),
                (''views'', JNum 1000), (''price'', JNull)]"

lemmas demo_defs =
  demo_db_def demo_users_def demo_user_def demo_sessions_def demo_session_def
  demo_ads_def demo_ad_def demo_payments_def demo_favorites_def demo_messages_def
  cookie_request_def bearer_request_def anonymous_request_def

lemmas auth_defs =
  require_admin_def require_auth_def get_current_user_def request_token_def bearer_token_def

section \<open>Store lemmas\<close>

lemma find_update_one:
  "(\<And>x. P x \<Longrightarrow> P (f x)) \<Longrightarrow> find P (update_one P f xs) = map_option f (find P xs)"
  by (induction xs) auto

lemma find_ad_update_other:
  "aid' \<noteq> aid \<Longrightarrow> (\<And>x. ad.ad_id (f x) = ad.ad_id x) \<Longrightarrow>
   find (\<lambda>a. ad.ad_id a = aid) (update_one (\<lambda>a. ad.ad_id a = aid') f xs)
     = find (\<lambda>a. ad.ad_id a = aid) xs"
  by (induction xs) auto

lemma find_update_one_field:
  "(\<And>x. P (f x) = P x) \<Longrightarrow> (\<And>x. g (f x) = g x) \<Longrightarrow>
   map_option g (find P (update_one P' f xs)) = map_option g (find P xs)"
  by (induction xs) auto

section \<open>Facts about the small store\<close>

lemma demo_db_sel:
  "users demo_db = demo_users" "user_sessions demo_db = demo_sessions" "ads demo_db = demo_ads"
  "payments demo_db = demo_payments" "favorites demo_db = demo_favorites"
  "messages demo_db = demo_messages"
  by (simp_all add: demo_db_def)

lemma demo_user_sel:
  "user.user_id demo_user = ''user_alice''" "email demo_user = Some ''alice@example.com''"
  "role demo_user = ''user''" "referral_count demo_user = None" "user.name demo_user = Some ''Alice''"
  "picture demo_user = None"
  by (simp_all add: demo_user_def)

lemma demo_ad_sel:
  "ad.ad_id demo_ad = ''ad_1''" "ad.user_id demo_ad = ''user_alice''" "ad.status demo_ad = ''active''"
  "last_topup demo_ad = None" "views demo_ad = 99" "topup_rank demo_ad = 0"
  "is_boosted demo_ad = False" "title demo_ad = JStr ''Bike''"
  by (simp_all add: demo_ad_def)

lemma demo_auth:
  "t \<le> 1800000000000000 \<Longrightarrow> require_auth demo_db (cookie_request ''tok_alice'') t = Inr demo_user"
  "t \<le> 1800000000000000 \<Longrightarrow> require_auth demo_db (bearer_request ''tok_bob'') t = Inr (demo_users ! 1)"
  "t \<le> 1800000000000000 \<Longrightarrow> require_auth demo_db (cookie_request ''tok_root'') t = Inr (demo_users ! 3)"
  "require_auth demo_db anonymous_request t = Inl (HTTPException 401 (Detail ''Not authenticated''))"
  by (simp_all add: auth_defs demo_db_sel demo_users_def demo_user_sel demo_sessions_def
        demo_session_def cookie_request_def bearer_request_def anonymous_request_def)

section \<open>Top-up: the order of the checks\<close>

text \<open>
  The cooldown check compares in minutes with floating point; on whole microseconds it
  is the comparison of the elapsed microseconds with the cooldown, and the minutes left
  are the integer quotient.
\<close>

lemma topup_cooldown_eq:
  "topup_cooldown usr a t_check =
     (case last_topup a of None \<Rightarrow> None
      | Some lt \<Rightarrow>
          if t_check - lt < (if referrals usr > 0 then 40 else 60) * 60000000
          then Some (HTTPException 400 (TopupWait (((if referrals usr > 0 then 40 else 60) * 60000000 - (t_check - lt)) div 60000000)))
          else None)"
proof (cases "last_topup a")
  case None then show ?thesis by (simp add: topup_cooldown_def)
next
  case (Some lt)
  define c :: int where "c = (if referrals usr > 0 then 40 else 60)"
  define d where "d = t_check - lt"
  have lt_iff: "real_of_int d / 1000000 / 60 < real_of_int c \<longleftrightarrow> d < c * 60000000"
  proof -
    have "real_of_int d / 1000000 / 60 < real_of_int c \<longleftrightarrow> real_of_int d < real_of_int (c * 60000000)"
      by (simp add: field_simps)
    then show ?thesis by (simp only: of_int_less_iff)
  qed
  have fl: "py_int (real_of_int c - real_of_int d / 1000000 / 60) = (c * 60000000 - d) div 60000000"
    if "d < c * 60000000"
  proof -
    have eq: "real_of_int c - real_of_int d / 1000000 / 60 = real_of_int (c * 60000000 - d) / real_of_int 60000000"
      by (simp add: field_simps)
    have pos: "0 \<le> real_of_int (c * 60000000 - d) / real_of_int 60000000"
      using that by simp
    show ?thesis
      unfolding eq py_int_def using pos by (simp only: if_True floor_divide_of_int_eq)
  qed
  show ?thesis
    using Some lt_iff fl
    by (simp add: topup_cooldown_def Let_def c_def d_def)
qed

text \<open>
  Claim C1. For a request of an authenticated caller (an unauthenticated one is answered
  401 by \<open>require_auth\<close> before anything else), top-up answers 404 when no ad has the id,
  403 when the ad is not the caller's, 400 when the caller's ad is not \<open>active\<close>, 400 with
  the minutes left when the last top-up is less than the cooldown ago, the cooldown being
  40 minutes for a caller with \<open>referral_count > 0\<close> and 60 minutes otherwise, and succeeds
  when no top-up is recorded or the cooldown has elapsed. Every refusal leaves the store
  as it was.
\<close>

theorem topup_ad_checks:
  assumes auth: "require_auth st req t_auth = Inr usr"
    and cd: "cooldown = (case referral_count usr of None \<Rightarrow> 60 | Some n \<Rightarrow> if n > 0 then 40 else 60)"
  shows
    "(find (\<lambda>a. ad.ad_id a = aid) (ads st) = None \<longrightarrow>
        topup_ad st req aid t_auth t_check t_now
          = (Inl (HTTPException 404 (Detail ''Ad not found'')), st))
     \<and> (\<forall>a. find (\<lambda>a. ad.ad_id a = aid) (ads st) = Some a \<longrightarrow>
          (ad.user_id a \<noteq> user.user_id usr \<longrightarrow>
             topup_ad st req aid t_auth t_check t_now
               = (Inl (HTTPException 403 (Detail ''Not your ad'')), st))
        \<and> (ad.user_id a = user.user_id usr \<and> ad.status a \<noteq> ''active'' \<longrightarrow>
             topup_ad st req aid t_auth t_check t_now
               = (Inl (HTTPException 400 (Detail ''Ad must be active to topup'')), st))
        \<and> (ad.user_id a = user.user_id usr \<and> ad.status a = ''active'' \<longrightarrow>
             (\<forall>lt. last_topup a = Some lt \<and> t_check - lt < cooldown * 60000000 \<longrightarrow>
                topup_ad st req aid t_auth t_check t_now
                  = (Inl (HTTPException 400
                       (TopupWait ((cooldown * 60000000 - (t_check - lt)) div 60000000))), st))
           \<and> (last_topup a = None
                \<or> (\<exists>lt. last_topup a = Some lt \<and> cooldown * 60000000 \<le> t_check - lt) \<longrightarrow>
                topup_ad st req aid t_auth t_check t_now
                  = (Inr (topup_response usr),
                     st\<lparr>ads := update_one (\<lambda>a. ad.ad_id a = aid)
                                 (\<lambda>a. a\<lparr>last_topup := Some t_now,
                                         topup_rank := timestamp t_now\<rparr>) (ads st)\<rparr>))))"
  using auth
  by (auto simp: topup_ad_def topup_cooldown_eq referrals_def cd split: option.splits)


theorem topup_ad_checks_witness:
  "topup_ad demo_db (cookie_request ''tok_alice'') ''ad_0'' 1700000000000000 1700000000000001 1700000000000002
     = (Inl (HTTPException 404 (Detail ''Ad not found'')), demo_db)
   \<and> topup_ad demo_db (cookie_request ''tok_alice'') ''ad_3'' 1700000000000000 1700000000000001 1700000000000002
     = (Inl (HTTPException 403 (Detail ''Not your ad'')), demo_db)
   \<and> topup_ad demo_db (bearer_request ''tok_bob'') ''ad_2'' 1700000000000000 1700000000000001 1700000000000002
     = (Inl (HTTPException 400 (Detail ''Ad must be active to topup'')), demo_db)
   \<and> topup_ad demo_db (bearer_request ''tok_bob'') ''ad_3'' 1700001800000000 1700001800000000 1700001800000002
     = (Inl (HTTPException 400 (TopupWait 10)), demo_db)
   \<and> topup_ad demo_db (cookie_request ''tok_alice'') ''ad_5'' 1700002400000000 1700002400000000 1700002400000002
     = (Inl (HTTPException 400 (TopupWait 20)), demo_db)
   \<and> fst (topup_ad demo_db (bearer_request ''tok_bob'') ''ad_3'' 1700002400000000 1700002400000000 1700002400000002)
     = Inr (topup_response (demo_users ! 1))
   \<and> fst (topup_ad demo_db (cookie_request ''tok_alice'') ''ad_1'' 1700000000000000 1700000000000001 1700000000000002)
     = Inr (topup_response demo_user)"
proof -
  have c60: "(60::int) = (case referral_count demo_user of None \<Rightarrow> 60 | Some n \<Rightarrow> if n > 0 then 40 else 60)"
    by (simp add: demo_user_sel)
  have c40: "(40::int) = (case referral_count (demo_users ! 1) of None \<Rightarrow> 60 | Some n \<Rightarrow> if n > 0 then 40 else 60)"
    by (simp add: demo_users_def)
  note s = demo_db_sel demo_ads_def demo_ad_sel demo_users_def demo_user_sel
  have 1: "topup_ad demo_db (cookie_request ''tok_alice'') ''ad_0'' 1700000000000000 1700000000000001 1700000000000002
     = (Inl (HTTPException 404 (Detail ''Ad not found'')), demo_db)"
    using topup_ad_checks [OF demo_auth(1) c60, of 1700000000000000 "''ad_0''" 1700000000000001 1700000000000002]
    by (simp add: s)
  have 2: "topup_ad demo_db (cookie_request ''tok_alice'') ''ad_3'' 1700000000000000 1700000000000001 1700000000000002
     = (Inl (HTTPException 403 (Detail ''Not your ad'')), demo_db)"
    using topup_ad_checks [OF demo_auth(1) c60, of 1700000000000000 "''ad_3''" 1700000000000001 1700000000000002]
    by (simp add: s)
  have 3: "topup_ad demo_db (bearer_request ''tok_bob'') ''ad_2'' 1700000000000000 1700000000000001 1700000000000002
     = (Inl (HTTPException 400 (Detail ''Ad must be active to topup'')), demo_db)"
    using topup_ad_checks [OF demo_auth(2) c40, of 1700000000000000 "''ad_2''" 1700000000000001 1700000000000002]
    by (simp add: s)
  have 4: "topup_ad demo_db (bearer_request ''tok_bob'') ''ad_3'' 1700001800000000 1700001800000000 1700001800000002
     = (Inl (HTTPException 400 (TopupWait 10)), demo_db)"
    using topup_ad_checks [OF demo_auth(2) c40, of 1700001800000000 "''ad_3''" 1700001800000000 1700001800000002]
    by (simp add: s)
  have 5: "topup_ad demo_db (cookie_request ''tok_alice'') ''ad_5'' 1700002400000000 1700002400000000 1700002400000002
     = (Inl (HTTPException 400 (TopupWait 20)), demo_db)"
    using topup_ad_checks [OF demo_auth(1) c60, of 1700002400000000 "''ad_5''" 1700002400000000 1700002400000002]
    by (simp add: s)
  have 6: "fst (topup_ad demo_db (bearer_request ''tok_bob'') ''ad_3'' 1700002400000000 1700002400000000 1700002400000002)
     = Inr (topup_response (demo_users ! 1))"
    using topup_ad_checks [OF demo_auth(2) c40, of 1700002400000000 "''ad_3''" 1700002400000000 1700002400000002]
    by (simp add: s)
  have 7: "fst (topup_ad demo_db (cookie_request ''tok_alice'') ''ad_1'' 1700000000000000 1700000000000001 1700000000000002)
     = Inr (topup_response demo_user)"
    using topup_ad_checks [OF demo_auth(1) c60, of 1700000000000000 "''ad_1''" 1700000000000001 1700000000000002]
    by (simp add: s)
  show ?thesis using 1 2 3 4 5 6 7 by blast
qed

section \<open>Top-up rank over time\<close>

lemma topup_ad_success:
  assumes "topup_ad st req aid t_auth t_check t_now = (Inr r, st')"
  shows "\<exists>a. find (\<lambda>a. ad.ad_id a = aid) (ads st') = Some a
             \<and> last_topup a = Some t_now \<and> topup_rank a = timestamp t_now"
    and "\<And>lt. last_of st aid = Some (Some lt) \<Longrightarrow> lt + 2400000000 \<le> t_check"
  using assms
  by (auto simp: topup_ad_def topup_cooldown_eq find_update_one last_of_def
       split: sum.splits option.splits if_splits)


lemma last_of_topup_other:
  "aid' \<noteq> aid \<Longrightarrow> last_of (snd (topup_ad st req aid' t_auth t_check t_now)) aid = last_of st aid"
  by (auto simp: topup_ad_def last_of_def find_ad_update_other split: sum.splits option.splits)

lemma last_of_topup_fail:
  "isl (fst (topup_ad st req aid' t_auth t_check t_now)) \<Longrightarrow> snd (topup_ad st req aid' t_auth t_check t_now) = st"
  by (auto simp: topup_ad_def split: sum.splits option.splits if_splits)

lemma last_of_get_ad:
  "last_of (fst (snd (get_ad cats cities st aid'))) aid = last_of st aid"
  by (auto simp: get_ad_def last_of_def Let_def find_update_one_field split: option.splits)

lemma set_field_keeps:
  "ad.ad_id (set_field f v a) = ad.ad_id a" "last_topup (set_field f v a) = last_topup a"
  by (simp_all add: set_field_def)

lemma fold_set_field_keeps:
  "ad.ad_id (fold (\<lambda>(f, v). set_field f v) fs a) = ad.ad_id a"
  "last_topup (fold (\<lambda>(f, v). set_field f v) fs a) = last_topup a"
  by (induction fs arbitrary: a) (auto simp: set_field_keeps)

lemma last_of_update_ad:
  "last_of (snd (update_ad st req aid' body t_auth t_now)) aid = last_of st aid"
  by (auto simp: update_ad_def last_of_def apply_update_def fold_set_field_keeps find_update_one_field
           split: sum.splits option.splits)

lemma last_of_webhook_finished:
  "last_of (fst (webhook_finished st tid oc trns t1 t2)) aid = last_of st aid"
  by (auto simp: webhook_finished_def last_of_def Let_def find_update_one_field)

lemma last_of_webhook:
  "last_of (fst (snd (payment_webhook jl st body t1 t2))) aid = last_of st aid"
proof -
  have "last_of (fst (snd (case webhook_finished st tid oc trns t1 t2 of
                             (st', ns) \<Rightarrow> (Inr received, st', ns)))) aid = last_of st aid"
    for tid oc trns
    using last_of_webhook_finished[of st tid oc trns t1 t2 aid]
    by (simp split: prod.splits)
  then show ?thesis
    by (simp add: payment_webhook_def Let_def split: json.splits)
qed


lemma topped_up_step:
  assumes "topped_up aid c st"
  shows "\<exists>tn a. find (\<lambda>a. ad.ad_id a = aid) (ads (apply_call jl cats cities c st)) = Some a
            \<and> topup_rank a = timestamp tn
            \<and> last_of (apply_call jl cats cities c st) aid = Some (Some tn)
            \<and> (clock_forward c \<longrightarrow> (\<forall>lt. last_of st aid = Some (Some lt) \<longrightarrow> lt + 2400000000 \<le> tn))"
proof (cases c)
  case (Topup aid' req t_auth t_check t_now)
  with assms have eq: "aid' = aid" and ok: "\<not> isl (fst (topup_ad st req aid t_auth t_check t_now))"
    by auto
  then obtain r st' where res: "topup_ad st req aid t_auth t_check t_now = (Inr r, st')"
    by (cases "topup_ad st req aid t_auth t_check t_now"; cases "fst (topup_ad st req aid t_auth t_check t_now)") auto
  from topup_ad_success(1)[OF res] obtain a where
    a: "find (\<lambda>a. ad.ad_id a = aid) (ads st') = Some a" "last_topup a = Some t_now"
       "topup_rank a = timestamp t_now" by blast
  have "lt + 2400000000 \<le> t_now" if "t_check \<le> t_now" "last_of st aid = Some (Some lt)" for lt
    using topup_ad_success(2)[OF res that(2)] that(1) by linarith
  with a res Topup eq show ?thesis
    by (auto simp: last_of_def)
qed (use assms in auto)

lemma other_step:
  assumes "\<not> topped_up aid c st"
  shows "last_of (apply_call jl cats cities c st) aid = last_of st aid"
proof (cases c)
  case (Topup aid' req t_auth t_check t_now)
  show ?thesis
  proof (cases "aid' = aid")
    case True
    with assms Topup have "isl (fst (topup_ad st req aid' t_auth t_check t_now))" by simp
    then show ?thesis using Topup by (simp add: last_of_topup_fail)
  next
    case False
    then show ?thesis using Topup by (simp add: last_of_topup_other)
  qed
qed (simp_all add: last_of_get_ad last_of_update_ad last_of_webhook)

lemma timestamp_mono:
  "a + 2400000000 \<le> b \<Longrightarrow> timestamp a + 2400 \<le> timestamp b"
  by (simp add: timestamp_def field_simps)

lemma topup_ranks_lower:
  assumes "\<forall>c\<in>set cs. clock_forward c" and "last_of st aid = Some (Some lt)"
  shows "\<forall>x\<in>set (topup_ranks jl cats cities aid st cs). timestamp lt + 2400 \<le> x"
  using assms
proof (induction cs arbitrary: st lt)
  case Nil
  then show ?case by simp
next
  case (Cons c cs)
  let ?st' = "apply_call jl cats cities c st"
  show ?case
  proof (cases "topped_up aid c st")
    case True
    from topped_up_step[OF True, of jl cats cities] Cons.prems obtain tn a where
      s: "find (\<lambda>a. ad.ad_id a = aid) (ads ?st') = Some a" "topup_rank a = timestamp tn"
         "last_of ?st' aid = Some (Some tn)" "lt + 2400000000 \<le> tn"
      by auto
    have rest: "\<forall>x\<in>set (topup_ranks jl cats cities aid ?st' cs). timestamp tn + 2400 \<le> x"
      using Cons.IH[OF _ s(3)] Cons.prems(1) by simp
    have "timestamp lt + 2400 \<le> timestamp tn" using s(4) by (rule timestamp_mono)
    with rest s True show ?thesis by (fastforce simp: Let_def)
  next
    case False
    from other_step[OF False, of jl cats cities] Cons.prems
    have "last_of ?st' aid = Some (Some lt)" by simp
    from Cons.IH[OF _ this] Cons.prems(1) False show ?thesis by (simp add: Let_def)
  qed
qed

lemma topup_ranks_sorted:
  assumes "\<forall>c\<in>set cs. clock_forward c"
  shows "sorted_wrt (<) (topup_ranks jl cats cities aid st cs)"
  using assms
proof (induction cs arbitrary: st)
  case Nil
  then show ?case by simp
next
  case (Cons c cs)
  let ?st' = "apply_call jl cats cities c st"
  have IH: "sorted_wrt (<) (topup_ranks jl cats cities aid ?st' cs)"
    using Cons by simp
  show ?case
  proof (cases "topped_up aid c st")
    case True
    from topped_up_step[OF True, of jl cats cities] obtain tn a where
      s: "find (\<lambda>a. ad.ad_id a = aid) (ads ?st') = Some a" "topup_rank a = timestamp tn"
         "last_of ?st' aid = Some (Some tn)"
      by auto
    have "\<forall>x\<in>set (topup_ranks jl cats cities aid ?st' cs). timestamp tn + 2400 \<le> x"
      using topup_ranks_lower[OF _ s(3), of cs jl cats cities] Cons.prems by simp
    then have "\<forall>x\<in>set (topup_ranks jl cats cities aid ?st' cs). timestamp tn < x"
      by fastforce
    with IH s True show ?thesis by (simp add: Let_def)
  next
    case False
    with IH show ?thesis by (simp add: Let_def)
  qed
qed


text \<open>
  Claim C6. A successful top-up stores the clock reading taken under \<open># Perform topup\<close> in
  \<open>last_topup\<close> and, as seconds since the epoch, in \<open>topup_rank\<close>. Over any sequence of
  requests (top-ups of this and other ads, detail fetches, updates, payment webhooks) in
  which no top-up sees the clock run backwards between its cooldown check and its write,
  the ranks left by the successful top-ups of one ad are strictly increasing: the cooldown
  check lets a top-up through only 40 minutes or more after the stored \<open>last_topup\<close>.
\<close>

theorem topup_rank_strictly_increases:
  "(topup_ad st req aid t_auth t_check t_now = (Inr r, st') \<longrightarrow>
      (\<exists>a. find (\<lambda>a. ad.ad_id a = aid) (ads st') = Some a
           \<and> last_topup a = Some t_now \<and> topup_rank a = timestamp t_now))
   \<and> ((\<forall>c\<in>set cs. clock_forward c) \<longrightarrow>
        sorted_wrt (<) (topup_ranks jl cats cities aid st0 cs))"
  using topup_ad_success(1) topup_ranks_sorted by blast

lemma demo_topup_ok:
  "topup_ad demo_db (cookie_request ''tok_alice'') ''ad_1'' 1700000000000000 1700000000000001 1700000000000002
     = (Inr (topup_response demo_user),
        demo_db\<lparr>ads := demo_ad\<lparr>last_topup := Some 1700000000000002,
                                 topup_rank := timestamp 1700000000000002\<rparr> # tl demo_ads\<rparr>)"
  by (simp add: topup_ad_def demo_auth topup_cooldown_eq demo_db_sel demo_ads_def demo_ad_sel demo_user_sel)

lemma demo_ranks:
  "topup_ranks (\<lambda>s. None) [] [] ''ad_1'' demo_db demo_calls
     = [timestamp 1700000000000002, timestamp 1700003600000003]"
  by code_simp

theorem topup_rank_strictly_increases_witness:
  "list_all clock_forward demo_calls
   \<and> sorted_wrt (<) (topup_ranks (\<lambda>s. None) [] [] ''ad_1'' demo_db demo_calls)
   \<and> topup_ranks (\<lambda>s. None) [] [] ''ad_1'' demo_db demo_calls
       = [timestamp 1700000000000002, timestamp 1700003600000003]
   \<and> (\<exists>a. find (\<lambda>a. ad.ad_id a = ''ad_1'')
              (ads (snd (topup_ad demo_db (cookie_request ''tok_alice'') ''ad_1''
                           1700000000000000 1700000000000001 1700000000000002))) = Some a
          \<and> last_topup a = Some 1700000000000002
          \<and> topup_rank a = timestamp 1700000000000002)"
proof -
  have fwd: "list_all clock_forward demo_calls"
    by (simp add: demo_calls_def)
  show ?thesis
    using fwd demo_topup_ok demo_ranks
      topup_rank_strictly_increases [where st = demo_db and req = "cookie_request ''tok_alice''"
        and aid = "''ad_1''" and t_auth = 1700000000000000 and t_check = 1700000000000001
        and t_now = 1700000000000002 and r = "topup_response demo_user" and cs = demo_calls
        and jl = "\<lambda>s. None" and cats = "[]" and cities = "[]" and ?st0.0 = demo_db]
    by (simp add: demo_ad_sel list_all_iff)
qed

section \<open>Listing: filter and order\<close>

lemma set_insert_doc: "set (insert_doc c x ys) = insert x (set ys)"
  by (induction ys) auto

lemma sorted_insert_doc:
  assumes "\<And>x y. c x y \<noteq> After \<Longrightarrow> P x y" and "\<And>x y. c x y = After \<Longrightarrow> P y x"
    and "transp P" and "sorted_wrt P ys"
  shows "sorted_wrt P (insert_doc c x ys)"
  using assms(4)
proof (induction ys)
  case Nil
  then show ?case by simp
next
  case (Cons y ys)
  show ?case
  proof (cases "c x y = After")
    case True
    then have "P y x" by (rule assms(2))
    with Cons True show ?thesis by (auto simp: set_insert_doc)
  next
    case False
    then have xy: "P x y" by (rule assms(1))
    have "P x z" if "z \<in> set ys" for z
      using xy Cons.prems that assms(3) by (auto dest: transpD)
    with xy Cons.prems False show ?thesis by auto
  qed
qed

lemma sorted_sort_docs:
  assumes "\<And>x y. c x y \<noteq> After \<Longrightarrow> P x y" and "\<And>x y. c x y = After \<Longrightarrow> P y x"
    and "transp P"
  shows "sorted_wrt P (sort_docs c xs)"
  unfolding sort_docs_def
  by (induction xs) (auto intro: sorted_insert_doc[OF assms])

lemma set_sort_docs: "set (sort_docs c xs) = set xs"
  unfolding sort_docs_def by (induction xs) (auto simp: set_insert_doc)

lemma transp_by_rank: "transp by_rank"
  by (auto simp: transp_def by_rank_def)

lemma transp_by_rank_boost: "transp by_rank_boost"
  by (auto simp: transp_def by_rank_boost_def)

lemma key_compare_rank:
  "key_compare bson ((''topup_rank'', -1) # ks) a b \<noteq> After \<Longrightarrow> by_rank a b"
  "key_compare bson ((''topup_rank'', -1) # ks) a b = After \<Longrightarrow> by_rank b a"
  by (auto simp: field_compare_def compare3_def by_rank_def split: order3.splits if_splits)

lemma key_compare_rank_boost:
  "key_compare bson ((''topup_rank'', -1) # (''is_boosted'', -1) # ks) a b \<noteq> After \<Longrightarrow> by_rank_boost a b"
  "key_compare bson ((''topup_rank'', -1) # (''is_boosted'', -1) # ks) a b = After \<Longrightarrow> by_rank_boost b a"
  by (auto simp: field_compare_def compare3_def by_rank_boost_def split: order3.splits if_splits)

lemma sort_by_cases:
  "sort_mode \<noteq> ''oldest'' \<or> p_category = Some ''escorts'' \<Longrightarrow>
     \<exists>ks. get_ads_sort_by p_category sort_mode = (''topup_rank'', -1) # ks"
  "\<exists>ks. get_ads_sort_by (Some ''escorts'') sort_mode = (''topup_rank'', -1) # (''is_boosted'', -1) # ks"
  "p_category \<noteq> Some ''escorts'' \<Longrightarrow> get_ads_sort_by p_category ''oldest'' = [(''created_at'', 1)]"
  by (auto simp: get_ads_sort_by_def sort_options_def Let_def split: option.splits)


lemma get_ads_page:
  assumes "get_ads bson other cats cities st pc ps pci se mn mx sort_mode pg limit = Inr resp"
  shows "map fst (ads_page resp) =
           take (nat limit) (drop (nat ((pg - 1) * limit))
             (sort_docs (key_compare bson (get_ads_sort_by pc sort_mode))
                (filter (doc_matches other (get_ads_query pc ps pci se mn mx)) (ads st))))"
  using assms
  by (auto simp: get_ads_def Let_def comp_def split: if_splits)

lemma query_status:
  "map_of (get_ads_query pc ps pci se mn mx) ''status'' = Some (Equals (JStr ''active''))"
  by (simp add: get_ads_query_def)

lemma doc_matches_active:
  "doc_matches other (get_ads_query pc ps pci se mn mx) a \<Longrightarrow> ad.status a = ''active''"
  by (simp add: doc_matches_def get_ads_query_def)

lemma page_subset: "set (take n (drop k xs)) \<subseteq> set xs"
  by (meson set_drop_subset set_take_subset subset_trans)

text \<open>
  Claim C2. The listing query always contains \<open>status = active\<close>. For each of the sort
  modes \<open>newest\<close>, \<open>price_low\<close>, \<open>price_high\<close> and \<open>boosted\<close> the sort specification
  starts with \<open>topup_rank\<close> descending; for \<open>oldest\<close> (outside the \<open>escorts\<close> category) it
  is \<open>created_at\<close> ascending alone. For the category \<open>escorts\<close> it starts with
  \<open>topup_rank\<close> descending, then \<open>is_boosted\<close> descending, whatever the sort mode. On the
  page that is returned: every ad is active, the ads are in descending order of
  \<open>topup_rank\<close> for those four modes and for \<open>escorts\<close>, and for \<open>escorts\<close> ads of equal
  rank are in descending order of \<open>is_boosted\<close>.
\<close>

theorem listing_sort_and_filter:
  "map_of (get_ads_query pc ps pci se mn mx) ''status'' = Some (Equals (JStr ''active''))
   \<and> (sort_mode \<in> {''newest'', ''price_low'', ''price_high'', ''boosted''} \<longrightarrow>
        hd (get_ads_sort_by pc sort_mode) = (''topup_rank'', -1))
   \<and> (pc \<noteq> Some ''escorts'' \<longrightarrow> get_ads_sort_by pc ''oldest'' = [(''created_at'', 1)])
   \<and> take 2 (get_ads_sort_by (Some ''escorts'') sort_mode)
        = [(''topup_rank'', -1), (''is_boosted'', -1)]
   \<and> (get_ads bson other cats cities st pc ps pci se mn mx sort_mode pg limit = Inr resp \<longrightarrow>
        (\<forall>a \<in> set (map fst (ads_page resp)). ad.status a = ''active'')
        \<and> (sort_mode \<in> {''newest'', ''price_low'', ''price_high'', ''boosted''}
              \<or> pc = Some ''escorts'' \<longrightarrow>
            sorted_wrt by_rank (map fst (ads_page resp)))
        \<and> (pc = Some ''escorts'' \<longrightarrow> sorted_wrt by_rank_boost (map fst (ads_page resp))))"
proof -
  have hd4: "hd (get_ads_sort_by pc sort_mode) = (''topup_rank'', -1)"
    if "sort_mode \<in> {''newest'', ''price_low'', ''price_high'', ''boosted''}"
  proof -
    from that have "sort_mode \<noteq> ''oldest''" by auto
    with sort_by_cases(1)[of sort_mode pc] show ?thesis by auto
  qed
  have esc: "take 2 (get_ads_sort_by (Some ''escorts'') sort_mode)
        = [(''topup_rank'', -1), (''is_boosted'', -1)]"
    using sort_by_cases(2)[of sort_mode] by auto
  have sem: "(\<forall>a \<in> set (map fst (ads_page resp)). ad.status a = ''active'')
        \<and> (sort_mode \<in> {''newest'', ''price_low'', ''price_high'', ''boosted''}
              \<or> pc = Some ''escorts'' \<longrightarrow>
            sorted_wrt by_rank (map fst (ads_page resp)))
        \<and> (pc = Some ''escorts'' \<longrightarrow> sorted_wrt by_rank_boost (map fst (ads_page resp)))"
    if ok: "get_ads bson other cats cities st pc ps pci se mn mx sort_mode pg limit = Inr resp"
  proof -
    let ?found = "filter (doc_matches other (get_ads_query pc ps pci se mn mx)) (ads st)"
    let ?sorted = "sort_docs (key_compare bson (get_ads_sort_by pc sort_mode)) ?found"
    have pg: "map fst (ads_page resp) = take (nat limit) (drop (nat ((pg - 1) * limit)) ?sorted)"
      using get_ads_page[OF ok] .
    have active: "\<forall>a \<in> set (map fst (ads_page resp)). ad.status a = ''active''"
    proof
      fix a assume "a \<in> set (map fst (ads_page resp))"
      then have "a \<in> set ?sorted" unfolding pg using page_subset by fastforce
      then have "a \<in> set ?found" by (simp only: set_sort_docs)
      then show "ad.status a = ''active''" by (auto dest: doc_matches_active)
    qed
    have rank: "sorted_wrt by_rank (map fst (ads_page resp))"
      if "sort_mode \<in> {''newest'', ''price_low'', ''price_high'', ''boosted''} \<or> pc = Some ''escorts''"
    proof -
      from that have "sort_mode \<noteq> ''oldest'' \<or> pc = Some ''escorts''" by auto
      from sort_by_cases(1)[OF this] obtain ks where
        ks: "get_ads_sort_by pc sort_mode = (''topup_rank'', -1) # ks" by blast
      have "sorted_wrt by_rank ?sorted"
        unfolding ks by (rule sorted_sort_docs[OF key_compare_rank transp_by_rank])
      then show ?thesis unfolding pg by (intro sorted_wrt_take sorted_wrt_drop)
    qed
    have boost: "sorted_wrt by_rank_boost (map fst (ads_page resp))" if "pc = Some ''escorts''"
    proof -
      from sort_by_cases(2)[of sort_mode] that obtain ks where
        ks: "get_ads_sort_by pc sort_mode = (''topup_rank'', -1) # (''is_boosted'', -1) # ks" by blast
      have "sorted_wrt by_rank_boost ?sorted"
        unfolding ks by (rule sorted_sort_docs[OF key_compare_rank_boost transp_by_rank_boost])
      then show ?thesis unfolding pg by (intro sorted_wrt_take sorted_wrt_drop)
    qed
    from active rank boost show ?thesis by blast
  qed
  from query_status hd4 sort_by_cases(3) esc sem show ?thesis by blast
qed



lemma demo_listing:
  "(case get_ads (\<lambda>x y. Same) (\<lambda>k v a. True) [] [] demo_db (Some ''escorts'') None None None
            None None ''oldest'' 1 20 of
      Inr resp \<Rightarrow> map (ad.ad_id \<circ> fst) (ads_page resp) | Inl e \<Rightarrow> [])
     = [''ad_5'', ''ad_3'', ''ad_1'']"
  by code_simp

theorem listing_sort_and_filter_witness:
  "(\<exists>resp. get_ads (\<lambda>x y. Same) (\<lambda>k v a. True) [] [] demo_db (Some ''escorts'') None None None
              None None ''oldest'' 1 20 = Inr resp
      \<and> map (ad.ad_id \<circ> fst) (ads_page resp) = [''ad_5'', ''ad_3'', ''ad_1'']
      \<and> (\<forall>a \<in> set (map fst (ads_page resp)). ad.status a = ''active'')
      \<and> sorted_wrt by_rank (map fst (ads_page resp))
      \<and> sorted_wrt by_rank_boost (map fst (ads_page resp)))
   \<and> ''newest'' \<in> {''newest'', ''price_low'', ''price_high'', ''boosted''}
   \<and> hd (get_ads_sort_by None ''newest'') = (''topup_rank'', -1)
   \<and> None \<noteq> Some ''escorts''
   \<and> get_ads_sort_by None ''oldest'' = [(''created_at'', 1)]"
proof -
  obtain resp where r: "get_ads (\<lambda>x y. Same) (\<lambda>k v a. True) [] [] demo_db (Some ''escorts'') None
       None None None None ''oldest'' 1 20 = Inr resp"
    by (simp add: get_ads_def Let_def)
  have ids: "map (ad.ad_id \<circ> fst) (ads_page resp) = [''ad_5'', ''ad_3'', ''ad_1'']"
    using demo_listing r by simp
  have sem: "(\<forall>a \<in> set (map fst (ads_page resp)). ad.status a = ''active'')
      \<and> sorted_wrt by_rank (map fst (ads_page resp))
      \<and> sorted_wrt by_rank_boost (map fst (ads_page resp))"
    using r listing_sort_and_filter [where pc = "Some ''escorts''" and sort_mode = "''oldest''"
        and bson = "\<lambda>x y. Same" and other = "\<lambda>k v a. True" and cats = "[]" and cities = "[]"
        and st = demo_db and ps = None and pci = None and se = None and mn = None and mx = None
        and pg = 1 and limit = 20 and resp = resp]
    by simp
  have srt: "hd (get_ads_sort_by None ''newest'') = (''topup_rank'', -1)
      \<and> get_ads_sort_by None ''oldest'' = [(''created_at'', 1)]"
    using listing_sort_and_filter [where pc = None and sort_mode = "''newest''"]
    by simp
  from r ids sem srt show ?thesis by simp
qed

section \<open>Ad detail: views and milestones\<close>

lemma milestone_loop_eq:
  "milestone_loop st a aid old new ms =
     (case find (\<lambda>m. old < m \<and> m \<le> new) ms of
        None \<Rightarrow> []
      | Some m \<Rightarrow>
          (case owner_address st a of
             None \<Rightarrow> []
           | Some e \<Rightarrow>
               [\<lparr>to_email = e, template_type = ''views_milestone'',
                 data = [(''user_name'',
                          opt_str (user.name (the (find (\<lambda>u. user.user_id u = ad.user_id a) (users st))))),
                         (''ad_title'', title a), (''ad_id'', JStr aid),
                         (''milestone'', JNum (real_of_int m)), (''site_url'', site_url)]\<rparr>]))"
  by (induction ms) (auto simp: owner_address_def split: option.splits)

lemma lowest_crossed_step:
  "lowest_crossed old (old + 1) = (if old + 1 \<in> set VIEW_MILESTONES then Some (old + 1) else None)"
  by (auto simp: lowest_crossed_def VIEW_MILESTONES_def)

lemma crossing_iff:
  "(\<exists>m\<in>set VIEW_MILESTONES. old < m \<and> m \<le> old + 1) \<longleftrightarrow> old + 1 \<in> set VIEW_MILESTONES"
  by (auto simp: VIEW_MILESTONES_def)

lemma owner_address_ads: "owner_address (st\<lparr>ads := xs\<rparr>) a = owner_address st a"
  by (simp add: owner_address_def)

text \<open>
  Claim C4, as it holds. A fetch of an existing ad adds exactly one to its \<open>views\<close> and
  changes nothing else in the store. It schedules a milestone notification if and only if
  some milestone \<open>m\<close> of 100, 500, 1000, 5000, 10000 has \<open>old_views < m \<le> old_views + 1\<close>
  and the user record found under the ad's \<open>user_id\<close> has a non-empty email. It schedules
  at most one; that one goes to the owner's address and carries the first milestone of the
  list that was crossed, which is the new view count.
\<close>

theorem get_ad_views_milestone:
  assumes found: "find (\<lambda>x. ad.ad_id x = aid) (ads st) = Some a"
    and res: "get_ad cats cities st aid = (r, st', ns)"
  shows "st' = st\<lparr>ads := update_one (\<lambda>x. ad.ad_id x = aid) (\<lambda>x. x\<lparr>views := views x + 1\<rparr>) (ads st)\<rparr>
       \<and> find (\<lambda>x. ad.ad_id x = aid) (ads st') = Some (a\<lparr>views := views a + 1\<rparr>)
       \<and> (ns \<noteq> [] \<longleftrightarrow>
            (\<exists>m\<in>set VIEW_MILESTONES. views a < m \<and> m \<le> views a + 1) \<and> owner_address st a \<noteq> None)
       \<and> length ns \<le> 1
       \<and> (\<forall>n\<in>set ns. template_type n = ''views_milestone''
              \<and> Some (to_email n) = owner_address st a
              \<and> lowest_crossed (views a) (views a + 1) = Some (views a + 1)
              \<and> map_of (data n) ''milestone'' = Some (JNum (real_of_int (views a + 1)))
              \<and> map_of (data n) ''ad_id'' = Some (JStr aid))"
proof -
  let ?st' = "st\<lparr>ads := update_one (\<lambda>x. ad.ad_id x = aid) (\<lambda>x. x\<lparr>views := views x + 1\<rparr>) (ads st)\<rparr>"
  from found res have st': "st' = ?st'"
    and ns: "ns = milestone_loop ?st' a aid (views a) (views a + 1) VIEW_MILESTONES"
    by (auto simp: get_ad_def Let_def)
  have f: "find (\<lambda>x. ad.ad_id x = aid) (ads st') = Some (a\<lparr>views := views a + 1\<rparr>)"
    unfolding st' using found by (simp add: find_update_one)
  have ns': "ns = (case lowest_crossed (views a) (views a + 1) of
        None \<Rightarrow> []
      | Some m \<Rightarrow>
          (case owner_address st a of
             None \<Rightarrow> []
           | Some e \<Rightarrow>
               [\<lparr>to_email = e, template_type = ''views_milestone'',
                 data = [(''user_name'',
                          opt_str (user.name (the (find (\<lambda>u. user.user_id u = ad.user_id a) (users ?st'))))),
                         (''ad_title'', title a), (''ad_id'', JStr aid),
                         (''milestone'', JNum (real_of_int m)), (''site_url'', site_url)]\<rparr>]))"
    unfolding ns milestone_loop_eq lowest_crossed_def owner_address_ads by (rule refl)
  show ?thesis
    using st' f ns'
    by (auto simp: lowest_crossed_step crossing_iff split: option.splits if_splits)
qed


text \<open>
  The claim C4 without the condition on the owner fails: the fourth ad of the small store
  belongs to a user whose record has no email (an account created from an OAuth profile
  without one); fetching it takes its views from 99 to 100, across the milestone 100, and
  schedules no notification.
\<close>

theorem get_ad_milestone_counterexample:
  "map ad.ad_id (ads demo_db) ! 3 = ''ad_4''
   \<and> map ad.user_id (ads demo_db) ! 3 = ''user_carol''
   \<and> map user.user_id (users demo_db) ! 2 = ''user_carol''
   \<and> map email (users demo_db) ! 2 = None
   \<and> map views (ads demo_db) ! 3 = 99
   \<and> map views (ads (fst (snd (get_ad [] [] demo_db ''ad_4'')))) ! 3 = 100
   \<and> 100 \<in> set VIEW_MILESTONES \<and> (99::int) < 100 \<and> (100::int) \<le> 99 + 1
   \<and> snd (snd (get_ad [] [] demo_db ''ad_4'')) = []"
  by code_simp

lemma demo_find_ad_1: "find (\<lambda>x. ad.ad_id x = ''ad_1'') (ads demo_db) = Some demo_ad"
  by (simp add: demo_db_sel demo_ads_def demo_ad_sel)

lemma demo_owner_address: "owner_address demo_db demo_ad = Some ''alice@example.com''"
  by (simp add: owner_address_def demo_db_sel demo_users_def demo_user_sel demo_ad_sel)

theorem get_ad_views_milestone_witness:
  "find (\<lambda>x. ad.ad_id x = ''ad_1'') (ads demo_db) = Some demo_ad
   \<and> views demo_ad = 99
   \<and> owner_address demo_db demo_ad = Some ''alice@example.com''
   \<and> find (\<lambda>x. ad.ad_id x = ''ad_1'') (ads (fst (snd (get_ad [] [] demo_db ''ad_1''))))
       = Some (demo_ad\<lparr>views := 100\<rparr>)
   \<and> length (snd (snd (get_ad [] [] demo_db ''ad_1''))) = 1
   \<and> map to_email (snd (snd (get_ad [] [] demo_db ''ad_1''))) = [''alice@example.com'']"
proof -
  let ?g = "get_ad [] [] demo_db ''ad_1''"
  have res: "?g = (fst ?g, fst (snd ?g), snd (snd ?g))" by simp
  note th = get_ad_views_milestone [OF demo_find_ad_1 res]
  have cross: "\<exists>m\<in>set VIEW_MILESTONES. views demo_ad < m \<and> m \<le> views demo_ad + 1"
    by (simp add: demo_ad_sel VIEW_MILESTONES_def)
  from th cross have ne: "snd (snd ?g) \<noteq> []" and le: "length (snd (snd ?g)) \<le> 1"
    by (simp_all add: demo_owner_address)
  then have len: "length (snd (snd ?g)) = 1"
    by (cases "snd (snd ?g)") auto
  from th have "\<forall>n\<in>set (snd (snd ?g)). to_email n = ''alice@example.com''"
    by (simp add: demo_owner_address)
  with len have mails: "map to_email (snd (snd ?g)) = [''alice@example.com'']"
    by (cases "snd (snd ?g)") auto
  from conjunct1[OF conjunct2[OF th]]
  have "find (\<lambda>x. ad.ad_id x = ''ad_1'') (ads (fst (snd ?g))) = Some (demo_ad\<lparr>views := 100\<rparr>)"
    by (simp add: demo_ad_sel)
  with demo_find_ad_1 demo_owner_address len mails show ?thesis
    by (simp add: demo_ad_sel)
qed

lemma update_one_commute:
  "(\<And>x. P (f x) = P x) \<Longrightarrow> (\<And>x. P (g x) = P x) \<Longrightarrow> (\<And>x. f (g x) = g (f x)) \<Longrightarrow>
   update_one P f (update_one P g xs) = update_one P g (update_one P f xs)"
  by (induction xs) auto

lemma get_ad_found:
  assumes "find (\<lambda>x. ad.ad_id x = aid) (ads st) = Some a"
  shows "get_ad cats cities st aid =
     (Inr (AdDocument a (enrich_category cats a @ enrich_city cities a @ enrich_user st a)),
      st\<lparr>ads := update_one (\<lambda>x. ad.ad_id x = aid) (\<lambda>x. x\<lparr>views := views x + 1\<rparr>) (ads st)\<rparr>,
      milestone_loop st a aid (views a) (views a + 1) VIEW_MILESTONES)"
proof -
  have "milestone_loop (st\<lparr>ads := xs\<rparr>) a aid old new ms = milestone_loop st a aid old new ms"
    for xs old new ms
    by (induction ms) (auto split: option.splits)
  then show ?thesis
    using assms by (simp add: get_ad_def Let_def enrich_user_def)
qed

lemma milestone_loop_status:
  "milestone_loop (with_status aid' s st) (a\<lparr>ad.status := s\<rparr>) aid old new ms
     = milestone_loop st a aid old new ms"
  by (induction ms) (auto simp: with_status_def split: option.splits)

text \<open>
  Claim C10. \<open>get_ad\<close> reads no cookie and no header, and never looks at \<open>status\<close>: for
  every ad found under the id, whatever its status, the answer is the stored document
  (with the added names) and the stored \<open>views\<close> go up by one. Setting the found ad's
  status to any value \<open>s\<close> beforehand, \<open>active\<close> for one, changes nothing in the answer,
  the store or the notifications but that status.
\<close>

theorem get_ad_public:
  assumes found: "find (\<lambda>x. ad.ad_id x = aid) (ads st) = Some a"
  shows "\<exists>extras ns.
      get_ad cats cities st aid
        = (Inr (AdDocument a extras),
           st\<lparr>ads := update_one (\<lambda>x. ad.ad_id x = aid) (\<lambda>x. x\<lparr>views := views x + 1\<rparr>) (ads st)\<rparr>,
           ns)
      \<and> find (\<lambda>x. ad.ad_id x = aid) (ads (fst (snd (get_ad cats cities st aid))))
          = Some (a\<lparr>views := views a + 1\<rparr>)
      \<and> (\<forall>s. get_ad cats cities (with_status aid s st) aid
              = (Inr (AdDocument (a\<lparr>ad.status := s\<rparr>) extras),
                 with_status aid s (fst (snd (get_ad cats cities st aid))),
                 ns))"
proof -
  let ?P = "\<lambda>x. ad.ad_id x = aid"
  let ?inc = "\<lambda>x. x\<lparr>views := views x + 1\<rparr>"
  have g: "get_ad cats cities st aid =
     (Inr (AdDocument a (enrich_category cats a @ enrich_city cities a @ enrich_user st a)),
      st\<lparr>ads := update_one ?P ?inc (ads st)\<rparr>,
      milestone_loop st a aid (views a) (views a + 1) VIEW_MILESTONES)"
    using found by (rule get_ad_found)
  have f': "find ?P (ads (fst (snd (get_ad cats cities st aid)))) = Some (a\<lparr>views := views a + 1\<rparr>)"
    unfolding g using found by (simp add: find_update_one)
  have st: "get_ad cats cities (with_status aid s st) aid
              = (Inr (AdDocument (a\<lparr>ad.status := s\<rparr>)
                     (enrich_category cats a @ enrich_city cities a @ enrich_user st a)),
                 with_status aid s (fst (snd (get_ad cats cities st aid))),
                 milestone_loop st a aid (views a) (views a + 1) VIEW_MILESTONES)" for s
  proof -
    have fs: "find ?P (ads (with_status aid s st)) = Some (a\<lparr>ad.status := s\<rparr>)"
      using found by (simp add: with_status_def find_update_one)
    have comm: "update_one ?P ?inc (update_one ?P (\<lambda>x. x\<lparr>ad.status := s\<rparr>) (ads st))
        = update_one ?P (\<lambda>x. x\<lparr>ad.status := s\<rparr>) (update_one ?P ?inc (ads st))"
      by (rule update_one_commute) simp_all
    have enr: "enrich_category cats (a\<lparr>ad.status := s\<rparr>) = enrich_category cats a"
      "enrich_city cities (a\<lparr>ad.status := s\<rparr>) = enrich_city cities a"
      "enrich_user (with_status aid s st) (a\<lparr>ad.status := s\<rparr>) = enrich_user st a"
      by (simp_all add: enrich_category_def enrich_city_def enrich_user_def with_status_def
            cong: option.case_cong if_cong)
    show ?thesis
      unfolding get_ad_found[OF fs] g
      by (simp add: enr milestone_loop_status) (simp add: with_status_def comm)
  qed
  from g f' st show ?thesis by blast
qed

theorem get_ad_public_witness:
  "find (\<lambda>x. ad.ad_id x = ''ad_2'') (ads demo_db) = Some (demo_ads ! 1)
   \<and> ad.status (demo_ads ! 1) = ''pending''
   \<and> (\<exists>extras. fst (get_ad [] [] demo_db ''ad_2'') = Inr (AdDocument (demo_ads ! 1) extras))
   \<and> map views (ads (fst (snd (get_ad [] [] demo_db ''ad_2'')))) = [99, 8, 100, 99, 99]"
proof -
  have f: "find (\<lambda>x. ad.ad_id x = ''ad_2'') (ads demo_db) = Some (demo_ads ! 1)"
    by (simp add: demo_db_sel demo_ads_def demo_ad_sel)
  have v: "map views (update_one (\<lambda>x. ad.ad_id x = ''ad_2'') (\<lambda>x. x\<lparr>views := views x + 1\<rparr>) demo_ads)
     = [99, 8, 100, 99, 99]"
    by (simp add: demo_ads_def demo_ad_sel)
  from get_ad_public [OF f, of "[]" "[]"] f v show ?thesis
    by (auto simp: demo_db_sel demo_ads_def)
qed

section \<open>Ad update: what may change\<close>

lemma filter_update_one:
  "(\<And>x. P x \<Longrightarrow> P (f x)) \<Longrightarrow> filter (\<lambda>x. \<not> P x) (update_one P f xs) = filter (\<lambda>x. \<not> P x) xs"
  by (induction xs) auto

lemma outside_set_field: "outside_update (set_field f v a) = outside_update a"
  by (simp add: set_field_def outside_update_def)

lemma get_set_field:
  "g \<in> set update_ad_fields \<Longrightarrow>
   get_field g (set_field f v a) = (if f = g then v else get_field g a)"
  by (auto simp: update_ad_fields_def get_field_def set_field_def)

lemma pick_fields_Cons:
  "pick_fields body (f # fs) = (case map_of body f of None \<Rightarrow> [] | Some v \<Rightarrow> [(f, v)]) @ pick_fields body fs"
  by (simp add: pick_fields_def)

lemma outside_fold:
  "outside_update (fold (\<lambda>(f, v). set_field f v) fvs a) = outside_update a"
  by (induction fvs arbitrary: a) (auto simp: outside_set_field)

lemma get_field_fold:
  assumes "g \<in> set update_ad_fields"
  shows "get_field g (fold (\<lambda>(f, v). set_field f v) (pick_fields body fs) a)
         = (if g \<in> set fs then (case map_of body g of None \<Rightarrow> get_field g a | Some v \<Rightarrow> v)
            else get_field g a)"
proof (induction fs arbitrary: a)
  case Nil
  then show ?case by (simp add: pick_fields_def)
next
  case (Cons f fs)
  show ?case
  proof (cases "map_of body f")
    case None
    then show ?thesis using Cons[of a] by (auto simp: pick_fields_Cons)
  next
    case (Some v)
    then show ?thesis
      using Cons[of "set_field f v a"] assms
      by (auto simp: pick_fields_Cons get_set_field split: option.splits)
  qed
qed

lemma apply_update_props:
  "ad.ad_id (apply_update fvs t a) = ad.ad_id a"
  "updated_at (apply_update fvs t a) = t"
  "outside_update (apply_update fvs t a) = outside_update a"
  "g \<in> set update_ad_fields \<Longrightarrow>
     get_field g (apply_update (update_fields body) t a)
       = (case map_of body g of None \<Rightarrow> get_field g a | Some v \<Rightarrow> v)"
proof -
  show "ad.ad_id (apply_update fvs t a) = ad.ad_id a"
    by (simp add: apply_update_def fold_set_field_keeps)
  show "updated_at (apply_update fvs t a) = t"
    by (simp add: apply_update_def)
  have "outside_update (x\<lparr>updated_at := t\<rparr>) = outside_update x" for x
    by (simp add: outside_update_def)
  then show "outside_update (apply_update fvs t a) = outside_update a"
    by (simp add: apply_update_def outside_fold)
  have "get_field g (x\<lparr>updated_at := t\<rparr>) = get_field g x" for x
    by (simp add: get_field_def)
  then show "get_field g (apply_update (update_fields body) t a)
       = (case map_of body g of None \<Rightarrow> get_field g a | Some v \<Rightarrow> v)"
    if "g \<in> set update_ad_fields"
    using get_field_fold[OF that, of body update_ad_fields a] that
    by (simp add: apply_update_def update_fields_def)
qed

lemma outside_fields:
  assumes "outside_update a' = outside_update a"
  shows "ad.ad_id a' = ad.ad_id a" "ad.user_id a' = ad.user_id a" "ad.status a' = ad.status a"
    "is_paid a' = is_paid a" "is_boosted a' = is_boosted a" "is_promoted a' = is_promoted a"
    "topup_rank a' = topup_rank a" "last_topup a' = last_topup a" "views a' = views a"
    "ad.created_at a' = ad.created_at a" "boost_expires_at a' = boost_expires_at a"
    "promote_expires_at a' = promote_expires_at a" "category_id a' = category_id a"
    "subcategory_id a' = subcategory_id a" "city_id a' = city_id a" "auto_topup a' = auto_topup a"
    "favorites_count a' = favorites_count a"
proof -
  have "sel (outside_update a') = sel (outside_update a)" for sel :: "ad \<Rightarrow> 'b"
    using assms by simp
  note e = this
  show "ad.ad_id a' = ad.ad_id a" using e[of ad.ad_id] by (simp add: outside_update_def)
  show "ad.user_id a' = ad.user_id a" using e[of ad.user_id] by (simp add: outside_update_def)
  show "ad.status a' = ad.status a" using e[of ad.status] by (simp add: outside_update_def)
  show "is_paid a' = is_paid a" using e[of is_paid] by (simp add: outside_update_def)
  show "is_boosted a' = is_boosted a" using e[of is_boosted] by (simp add: outside_update_def)
  show "is_promoted a' = is_promoted a" using e[of is_promoted] by (simp add: outside_update_def)
  show "topup_rank a' = topup_rank a" using e[of topup_rank] by (simp add: outside_update_def)
  show "last_topup a' = last_topup a" using e[of last_topup] by (simp add: outside_update_def)
  show "views a' = views a" using e[of views] by (simp add: outside_update_def)
  show "ad.created_at a' = ad.created_at a" using e[of ad.created_at] by (simp add: outside_update_def)
  show "boost_expires_at a' = boost_expires_at a" using e[of boost_expires_at] by (simp add: outside_update_def)
  show "promote_expires_at a' = promote_expires_at a" using e[of promote_expires_at] by (simp add: outside_update_def)
  show "category_id a' = category_id a" using e[of category_id] by (simp add: outside_update_def)
  show "subcategory_id a' = subcategory_id a" using e[of subcategory_id] by (simp add: outside_update_def)
  show "city_id a' = city_id a" using e[of city_id] by (simp add: outside_update_def)
  show "auto_topup a' = auto_topup a" using e[of auto_topup] by (simp add: outside_update_def)
  show "favorites_count a' = favorites_count a" using e[of favorites_count] by (simp add: outside_update_def)
qed


text \<open>
  Claim C7. An unauthenticated update is answered 401. For an authenticated caller and an
  existing ad: a caller who is neither the owner nor an admin is answered 403 and nothing
  changes; for the owner or an admin the update succeeds, each of title, description,
  price, price_type, contact_phone, contact_email, details and images takes the value the
  body gives it or keeps its own when the body has no such key, \<open>updated_at\<close> becomes the
  clock reading, and every other field of the ad (status, is_paid, is_boosted,
  is_promoted, topup_rank, last_topup, views, user_id, created_at among them), every other
  ad and every other collection are as before.
\<close>

theorem update_ad_frame:
  "(\<forall>e. require_auth st req t_auth = Inl e \<longrightarrow>
        update_ad st req aid body t_auth t_now = (Inl e, st))
   \<and> (\<forall>usr a. require_auth st req t_auth = Inr usr
           \<and> find (\<lambda>x. ad.ad_id x = aid) (ads st) = Some a \<longrightarrow>
        (ad.user_id a \<noteq> user.user_id usr \<and> role usr \<noteq> ''admin'' \<longrightarrow>
           update_ad st req aid body t_auth t_now
             = (Inl (HTTPException 403 (Detail ''Not authorized'')), st))
        \<and> (ad.user_id a = user.user_id usr \<or> role usr = ''admin'' \<longrightarrow>
           (\<exists>st' a'. update_ad st req aid body t_auth t_now
                        = (Inr (Json (JObj [(''message'', JStr ''Ad updated'')])), st')
              \<and> find (\<lambda>x. ad.ad_id x = aid) (ads st') = Some a'
              \<and> (\<forall>f\<in>set update_ad_fields.
                    get_field f a' = (case map_of body f of None \<Rightarrow> get_field f a | Some v \<Rightarrow> v))
              \<and> updated_at a' = t_now
              \<and> outside_update a' = outside_update a
              \<and> ad.status a' = ad.status a \<and> is_paid a' = is_paid a
              \<and> is_boosted a' = is_boosted a \<and> is_promoted a' = is_promoted a
              \<and> topup_rank a' = topup_rank a \<and> last_topup a' = last_topup a
              \<and> views a' = views a \<and> ad.user_id a' = ad.user_id a
              \<and> ad.created_at a' = ad.created_at a
              \<and> filter (\<lambda>x. ad.ad_id x \<noteq> aid) (ads st') = filter (\<lambda>x. ad.ad_id x \<noteq> aid) (ads st)
              \<and> users st' = users st \<and> user_sessions st' = user_sessions st
              \<and> payments st' = payments st \<and> favorites st' = favorites st
              \<and> messages st' = messages st)))"
proof (intro conjI allI impI)
  fix e assume "require_auth st req t_auth = Inl e"
  then show "update_ad st req aid body t_auth t_now = (Inl e, st)"
    by (simp add: update_ad_def)
next
  fix usr a
  assume h: "require_auth st req t_auth = Inr usr \<and> find (\<lambda>x. ad.ad_id x = aid) (ads st) = Some a"
    and "ad.user_id a \<noteq> user.user_id usr \<and> role usr \<noteq> ''admin''"
  then show "update_ad st req aid body t_auth t_now
             = (Inl (HTTPException 403 (Detail ''Not authorized'')), st)"
    by (simp add: update_ad_def)
next
  fix usr a
  assume h: "require_auth st req t_auth = Inr usr \<and> find (\<lambda>x. ad.ad_id x = aid) (ads st) = Some a"
    and ok: "ad.user_id a = user.user_id usr \<or> role usr = ''admin''"
  let ?P = "\<lambda>x. ad.ad_id x = aid"
  let ?f = "apply_update (update_fields body) t_now"
  let ?st' = "st\<lparr>ads := update_one ?P ?f (ads st)\<rparr>"
  let ?a' = "?f a"
  have res: "update_ad st req aid body t_auth t_now
               = (Inr (Json (JObj [(''message'', JStr ''Ad updated'')])), ?st')"
    using h ok by (auto simp: update_ad_def)
  have keep: "\<And>x. ?P x \<Longrightarrow> ?P (?f x)"
    by (simp add: apply_update_props(1))
  have found: "find ?P (ads ?st') = Some ?a'"
    using h find_update_one[of ?P ?f "ads st", OF keep] by simp
  have flds: "\<forall>f\<in>set update_ad_fields.
      get_field f ?a' = (case map_of body f of None \<Rightarrow> get_field f a | Some v \<Rightarrow> v)"
    by (simp add: apply_update_props(4))
  have out: "outside_update ?a' = outside_update a"
    by (rule apply_update_props(3))
  have others: "filter (\<lambda>x. ad.ad_id x \<noteq> aid) (ads ?st') = filter (\<lambda>x. ad.ad_id x \<noteq> aid) (ads st)"
    using filter_update_one[of ?P ?f "ads st", OF keep] by simp
  show "\<exists>st' a'. update_ad st req aid body t_auth t_now
                        = (Inr (Json (JObj [(''message'', JStr ''Ad updated'')])), st')
              \<and> find (\<lambda>x. ad.ad_id x = aid) (ads st') = Some a'
              \<and> (\<forall>f\<in>set update_ad_fields.
                    get_field f a' = (case map_of body f of None \<Rightarrow> get_field f a | Some v \<Rightarrow> v))
              \<and> updated_at a' = t_now
              \<and> outside_update a' = outside_update a
              \<and> ad.status a' = ad.status a \<and> is_paid a' = is_paid a
              \<and> is_boosted a' = is_boosted a \<and> is_promoted a' = is_promoted a
              \<and> topup_rank a' = topup_rank a \<and> last_topup a' = last_topup a
              \<and> views a' = views a \<and> ad.user_id a' = ad.user_id a
              \<and> ad.created_at a' = ad.created_at a
              \<and> filter (\<lambda>x. ad.ad_id x \<noteq> aid) (ads st') = filter (\<lambda>x. ad.ad_id x \<noteq> aid) (ads st)
              \<and> users st' = users st \<and> user_sessions st' = user_sessions st
              \<and> payments st' = payments st \<and> favorites st' = favorites st
              \<and> messages st' = messages st"
    apply (rule exI[of _ ?st'])
    apply (rule exI[of _ ?a'])
    using res found flds out others outside_fields[OF out] apply_update_props(2)[of "update_fields body" t_now a]
    apply simp
    done
qed


lemma demo_ad_2:
  "find (\<lambda>x. ad.ad_id x = ''ad_2'') (ads demo_db) = Some (demo_ads ! 1)"
  "ad.user_id (demo_ads ! 1) = ''user_bob''" "ad.status (demo_ads ! 1) = ''pending''"
  "views (demo_ads ! 1) = 7" "title (demo_ads ! 1) = JStr ''Bike''"
  "description (demo_ads ! 1) = JStr ''A bike''" "price (demo_ads ! 1) = JNum 100"
  by (simp_all add: demo_db_sel demo_ads_def demo_ad_sel demo_ad_def)

lemma demo_users_sel:
  "user.user_id (demo_users ! 1) = ''user_bob''" "role (demo_users ! 1) = ''user''"
  "user.user_id (demo_users ! 3) = ''user_root''" "role (demo_users ! 3) = ''admin''"
  by (simp_all add: demo_users_def demo_user_sel)

theorem update_ad_frame_witness:
  "update_ad demo_db anonymous_request ''ad_2'' demo_body 1700000000000000 1700000000000001
     = (Inl (HTTPException 401 (Detail ''Not authenticated'')), demo_db)
   \<and> update_ad demo_db (cookie_request ''tok_alice'') ''ad_2'' demo_body 1700000000000000 1700000000000001
     = (Inl (HTTPException 403 (Detail ''Not authorized'')), demo_db)
   \<and> (\<exists>st' a'. update_ad demo_db (bearer_request ''tok_bob'') ''ad_2'' demo_body
                   1700000000000000 1700000000000001
                 = (Inr (Json (JObj [(''message'', JStr ''Ad updated'')])), st')
          \<and> find (\<lambda>x. ad.ad_id x = ''ad_2'') (ads st') = Some a'
          \<and> title a' = JStr ''New title'' \<and> description a' = JStr ''A bike'' \<and> price a' = JNull
          \<and> updated_at a' = 1700000000000001
          \<and> ad.status a' = ''pending'' \<and> views a' = 7 \<and> ad.user_id a' = ''user_bob'')
   \<and> (\<exists>st' a'. update_ad demo_db (cookie_request ''tok_root'') ''ad_2'' demo_body
                   1700000000000000 1700000000000001
                 = (Inr (Json (JObj [(''message'', JStr ''Ad updated'')])), st')
          \<and> find (\<lambda>x. ad.ad_id x = ''ad_2'') (ads st') = Some a'
          \<and> title a' = JStr ''New title'' \<and> ad.status a' = ''pending'')"
proof -
  have t: "(1700000000000000::int) \<le> 1800000000000000" by simp
  note anon = conjunct1[OF update_ad_frame, rule_format, OF demo_auth(4)]
  have 1: "update_ad demo_db anonymous_request ''ad_2'' demo_body 1700000000000000 1700000000000001
     = (Inl (HTTPException 401 (Detail ''Not authenticated'')), demo_db)"
    by (rule anon)
  note alice = conjunct2[OF update_ad_frame, rule_format, OF conjI[OF demo_auth(1)[OF t] demo_ad_2(1)]]
  have 2: "update_ad demo_db (cookie_request ''tok_alice'') ''ad_2'' demo_body 1700000000000000 1700000000000001
     = (Inl (HTTPException 403 (Detail ''Not authorized'')), demo_db)"
    by (rule conjunct1[OF alice, rule_format]) (simp add: demo_ad_2 demo_user_sel del: One_nat_def)
  have tf: "''title'' \<in> set update_ad_fields" "''description'' \<in> set update_ad_fields"
    "''price'' \<in> set update_ad_fields"
    by (simp_all add: update_ad_fields_def)
  have gf: "get_field ''title'' x = title x" "get_field ''description'' x = description x"
    "get_field ''price'' x = price x" for x
    by (simp_all add: get_field_def)
  have mb: "map_of demo_body ''title'' = Some (JStr ''New title'')"
    "map_of demo_body ''description'' = None" "map_of demo_body ''price'' = Some JNull"
    by (simp_all add: demo_body_def)
  note bob = conjunct2[OF update_ad_frame, rule_format, OF conjI[OF demo_auth(2)[OF t] demo_ad_2(1)]]
  have 3: "\<exists>st' a'. update_ad demo_db (bearer_request ''tok_bob'') ''ad_2'' demo_body
                   1700000000000000 1700000000000001
                 = (Inr (Json (JObj [(''message'', JStr ''Ad updated'')])), st')
          \<and> find (\<lambda>x. ad.ad_id x = ''ad_2'') (ads st') = Some a'
          \<and> title a' = JStr ''New title'' \<and> description a' = JStr ''A bike'' \<and> price a' = JNull
          \<and> updated_at a' = 1700000000000001
          \<and> ad.status a' = ''pending'' \<and> views a' = 7 \<and> ad.user_id a' = ''user_bob''"
  proof -
    have "ad.user_id (demo_ads ! 1) = user.user_id (demo_users ! 1) \<or> role (demo_users ! 1) = ''admin''"
      by (simp add: demo_ad_2 demo_users_sel del: One_nat_def)
    from conjunct2[OF bob, rule_format, OF this, of demo_body 1700000000000001]
    obtain st' a' where
      r: "update_ad demo_db (bearer_request ''tok_bob'') ''ad_2'' demo_body
                   1700000000000000 1700000000000001
                 = (Inr (Json (JObj [(''message'', JStr ''Ad updated'')])), st')"
      and f: "find (\<lambda>x. ad.ad_id x = ''ad_2'') (ads st') = Some a'"
      and g: "\<forall>f\<in>set update_ad_fields.
                get_field f a' = (case map_of demo_body f of None \<Rightarrow> get_field f (demo_ads ! 1) | Some v \<Rightarrow> v)"
      and u: "updated_at a' = 1700000000000001"
      and s: "ad.status a' = ad.status (demo_ads ! 1)" "views a' = views (demo_ads ! 1)"
             "ad.user_id a' = ad.user_id (demo_ads ! 1)"
      by blast
    from g[rule_format, OF tf(1)] g[rule_format, OF tf(2)] g[rule_format, OF tf(3)]
    have "title a' = JStr ''New title''" "description a' = JStr ''A bike''" "price a' = JNull"
      by (simp_all add: gf mb demo_ad_2 del: One_nat_def)
    with r f u s show ?thesis by (simp add: demo_ad_2 del: One_nat_def)
  qed
  note root = conjunct2[OF update_ad_frame, rule_format, OF conjI[OF demo_auth(3)[OF t] demo_ad_2(1)]]
  have 4: "\<exists>st' a'. update_ad demo_db (cookie_request ''tok_root'') ''ad_2'' demo_body
                   1700000000000000 1700000000000001
                 = (Inr (Json (JObj [(''message'', JStr ''Ad updated'')])), st')
          \<and> find (\<lambda>x. ad.ad_id x = ''ad_2'') (ads st') = Some a'
          \<and> title a' = JStr ''New title'' \<and> ad.status a' = ''pending''"
  proof -
    have "ad.user_id (demo_ads ! 1) = user.user_id (demo_users ! 3) \<or> role (demo_users ! 3) = ''admin''"
      by (simp add: demo_users_sel del: One_nat_def)
    from conjunct2[OF root, rule_format, OF this, of demo_body 1700000000000001]
    obtain st' a' where
      r: "update_ad demo_db (cookie_request ''tok_root'') ''ad_2'' demo_body
                   1700000000000000 1700000000000001
                 = (Inr (Json (JObj [(''message'', JStr ''Ad updated'')])), st')"
      and f: "find (\<lambda>x. ad.ad_id x = ''ad_2'') (ads st') = Some a'"
      and g: "\<forall>f\<in>set update_ad_fields.
                get_field f a' = (case map_of demo_body f of None \<Rightarrow> get_field f (demo_ads ! 1) | Some v \<Rightarrow> v)"
      and s: "ad.status a' = ad.status (demo_ads ! 1)"
      by blast
    from g[rule_format, OF tf(1)] have "title a' = JStr ''New title''"
      by (simp add: gf mb del: One_nat_def)
    with r f s show ?thesis by (simp add: demo_ad_2 del: One_nat_def)
  qed
  from 1 2 3 4 show ?thesis by blast
qed

section \<open>Deleting a user: the cascade\<close>

lemma find_delete_many:
  "find Q (delete_many P xs) = find (\<lambda>x. Q x \<and> \<not> P x) xs"
  by (induction xs) (auto simp: delete_many_def)

lemma find_None_all: "(\<And>x. x \<in> set xs \<Longrightarrow> \<not> Q x) \<Longrightarrow> find Q xs = None"
  by (induction xs) auto

lemma require_admin_Inr:
  "require_admin st req t = Inr admin \<Longrightarrow> require_auth st req t = Inr admin \<and> role admin = ''admin''"
  by (auto simp: require_admin_def split: sum.splits if_splits)

text \<open>
  Claim C8. When an admin deletes another user, every ad whose \<open>user_id\<close> is that user
  and every session of that user are deleted, then the first user record with that id;
  favorites, messages and payments are left as they are. Afterwards the detail fetch of an
  id that only ads of that user carried answers 404, and a request presenting a token
  that only sessions of that user carried is unauthenticated (401).
\<close>

theorem admin_delete_user_cascade:
  assumes adm: "require_admin st req t_auth = Inr admin"
    and other: "user.user_id admin \<noteq> uid"
    and res: "admin_delete_user st req uid t_auth = (r, st')"
  shows "r = Inr (Json (JObj [(''message'', JStr ''User and all associated data deleted'')]))
       \<and> ads st' = filter (\<lambda>a. ad.user_id a \<noteq> uid) (ads st)
       \<and> user_sessions st' = filter (\<lambda>s. session.user_id s \<noteq> uid) (user_sessions st)
       \<and> users st' = delete_one (\<lambda>u. user.user_id u = uid) (users st)
       \<and> favorites st' = favorites st \<and> messages st' = messages st \<and> payments st' = payments st
       \<and> (\<forall>aid. (\<exists>a\<in>set (ads st). ad.ad_id a = aid)
                \<and> (\<forall>a\<in>set (ads st). ad.ad_id a = aid \<longrightarrow> ad.user_id a = uid) \<longrightarrow>
              fst (get_ad cats cities st' aid) = Inl (HTTPException 404 (Detail ''Ad not found'')))
       \<and> (\<forall>rq t tok. request_token rq = Some tok
                \<and> (\<exists>s\<in>set (user_sessions st). session_token s = tok)
                \<and> (\<forall>s\<in>set (user_sessions st). session_token s = tok \<longrightarrow> session.user_id s = uid) \<longrightarrow>
              get_current_user st' rq t = None
              \<and> require_auth st' rq t = Inl (HTTPException 401 (Detail ''Not authenticated'')))"
proof -
  from adm other res have r: "r = Inr (Json (JObj [(''message'', JStr ''User and all associated data deleted'')]))"
    and st': "st' = st\<lparr>ads := delete_many (\<lambda>a. ad.user_id a = uid) (ads st),
                       user_sessions := delete_many (\<lambda>s. session.user_id s = uid) (user_sessions st),
                       users := delete_one (\<lambda>u. user.user_id u = uid) (users st)\<rparr>"
    by (auto simp: admin_delete_user_def)
  have gone: "fst (get_ad cats cities st' aid) = Inl (HTTPException 404 (Detail ''Ad not found''))"
    if "\<forall>a\<in>set (ads st). ad.ad_id a = aid \<longrightarrow> ad.user_id a = uid" for aid
  proof -
    have "find (\<lambda>a. ad.ad_id a = aid) (ads st') = None"
      unfolding st' using that by (auto simp: find_delete_many intro!: find_None_all)
    then show ?thesis by (simp add: get_ad_def)
  qed
  have unauth: "get_current_user st' rq t = None"
    if "\<forall>s\<in>set (user_sessions st). session_token s = tok \<longrightarrow> session.user_id s = uid"
      and "request_token rq = Some tok" for rq t tok
  proof -
    have "find (\<lambda>s. session_token s = tok) (user_sessions st') = None"
      unfolding st' using that(1) by (auto simp: find_delete_many intro!: find_None_all)
    then show ?thesis using that(2) by (simp add: get_current_user_def)
  qed
  show ?thesis
    using r st' gone unauth
    by (auto simp: delete_many_def require_auth_def)
qed

text \<open>
  Claim C9. An admin who asks to delete their own user id is answered 400, and the store
  is left exactly as it was: no user record, ad or session is deleted.
\<close>

theorem admin_self_delete_refused:
  assumes adm: "require_admin st req t_auth = Inr admin"
    and self: "user.user_id admin = uid"
  shows "admin_delete_user st req uid t_auth
           = (Inl (HTTPException 400 (Detail ''Cannot delete your own account'')), st)"
  using assms by (simp add: admin_delete_user_def)


lemma demo_admin:
  "t \<le> 1800000000000000 \<Longrightarrow> require_admin demo_db (cookie_request ''tok_root'') t = Inr (demo_users ! 3)"
  by (simp add: require_admin_def demo_auth(3) demo_users_sel)

theorem admin_delete_user_cascade_witness:
  "fst (admin_delete_user demo_db (cookie_request ''tok_root'') ''user_bob'' 1700000000000000)
     = Inr (Json (JObj [(''message'', JStr ''User and all associated data deleted'')]))
   \<and> map ad.user_id (ads demo_db) = [''user_alice'', ''user_bob'', ''user_bob'', ''user_carol'', ''user_alice'']
   \<and> map ad.ad_id (ads (snd (admin_delete_user demo_db (cookie_request ''tok_root'') ''user_bob'' 1700000000000000)))
       = [''ad_1'', ''ad_4'', ''ad_5'']
   \<and> map session_token (user_sessions (snd (admin_delete_user demo_db (cookie_request ''tok_root'') ''user_bob'' 1700000000000000)))
       = [''tok_alice'', ''tok_carol'', ''tok_root'']
   \<and> map user.user_id (users (snd (admin_delete_user demo_db (cookie_request ''tok_root'') ''user_bob'' 1700000000000000)))
       = [''user_alice'', ''user_carol'', ''user_root'']
   \<and> map favorite.user_id (favorites (snd (admin_delete_user demo_db (cookie_request ''tok_root'') ''user_bob'' 1700000000000000)))
       = [''user_bob'']
   \<and> map sender_id (messages (snd (admin_delete_user demo_db (cookie_request ''tok_root'') ''user_bob'' 1700000000000000)))
       = [''user_bob'']
   \<and> fst (get_ad [] [] (snd (admin_delete_user demo_db (cookie_request ''tok_root'') ''user_bob'' 1700000000000000)) ''ad_2'')
       = Inl (HTTPException 404 (Detail ''Ad not found''))
   \<and> require_auth demo_db (bearer_request ''tok_bob'') 1700000000000001 = Inr (demo_users ! 1)
   \<and> require_auth (snd (admin_delete_user demo_db (cookie_request ''tok_root'') ''user_bob'' 1700000000000000))
         (bearer_request ''tok_bob'') 1700000000000001
       = Inl (HTTPException 401 (Detail ''Not authenticated''))"
proof -
  let ?x = "admin_delete_user demo_db (cookie_request ''tok_root'') ''user_bob'' 1700000000000000"
  have adm: "require_admin demo_db (cookie_request ''tok_root'') 1700000000000000 = Inr (demo_users ! 3)"
    by (simp add: demo_admin)
  have other: "user.user_id (demo_users ! 3) \<noteq> ''user_bob''"
    by (simp add: demo_users_sel)
  have res: "?x = (fst ?x, snd ?x)" by simp
  note th = admin_delete_user_cascade [OF adm other res, of "[]" "[]"]
  have owners: "map ad.user_id (ads demo_db)
      = [''user_alice'', ''user_bob'', ''user_bob'', ''user_carol'', ''user_alice'']"
    by (simp add: demo_db_sel demo_ads_def demo_ad_sel)
  have 1: "fst ?x = Inr (Json (JObj [(''message'', JStr ''User and all associated data deleted'')]))"
    using th by blast
  have 2: "map ad.ad_id (ads (snd ?x)) = [''ad_1'', ''ad_4'', ''ad_5'']"
    using conjunct1[OF conjunct2[OF th]] by (simp add: demo_db_sel demo_ads_def demo_ad_sel)
  have 3: "map session_token (user_sessions (snd ?x)) = [''tok_alice'', ''tok_carol'', ''tok_root'']"
    using conjunct1[OF conjunct2[OF conjunct2[OF th]]]
    by (simp add: demo_db_sel demo_sessions_def demo_session_def)
  have 4: "map user.user_id (users (snd ?x)) = [''user_alice'', ''user_carol'', ''user_root'']"
    using conjunct1[OF conjunct2[OF conjunct2[OF conjunct2[OF th]]]]
    by (simp add: demo_db_sel demo_users_def demo_user_sel)
  have 5: "map favorite.user_id (favorites (snd ?x)) = [''user_bob'']"
    "map sender_id (messages (snd ?x)) = [''user_bob'']"
    using th by (simp_all add: demo_db_sel demo_favorites_def demo_messages_def)
  have own: "(\<exists>a\<in>set (ads demo_db). ad.ad_id a = ''ad_2'')
      \<and> (\<forall>a\<in>set (ads demo_db). ad.ad_id a = ''ad_2'' \<longrightarrow> ad.user_id a = ''user_bob'')"
    by (simp add: demo_db_sel demo_ads_def demo_ad_sel)
  have 6: "fst (get_ad [] [] (snd ?x) ''ad_2'') = Inl (HTTPException 404 (Detail ''Ad not found''))"
    using th own by blast
  have tok: "request_token (bearer_request ''tok_bob'') = Some ''tok_bob''
      \<and> (\<exists>s\<in>set (user_sessions demo_db). session_token s = ''tok_bob'')
      \<and> (\<forall>s\<in>set (user_sessions demo_db). session_token s = ''tok_bob'' \<longrightarrow> session.user_id s = ''user_bob'')"
    by (simp add: request_token_def bearer_request_def bearer_token_def demo_db_sel
          demo_sessions_def demo_session_def)
  have 7: "require_auth (snd ?x) (bearer_request ''tok_bob'') 1700000000000001
       = Inl (HTTPException 401 (Detail ''Not authenticated''))"
    using th tok by blast
  have 8: "require_auth demo_db (bearer_request ''tok_bob'') 1700000000000001 = Inr (demo_users ! 1)"
    by (simp add: demo_auth)
  from 1 owners 2 3 4 5 6 7 8 show ?thesis by blast
qed

theorem admin_self_delete_refused_witness:
  "admin_delete_user demo_db (cookie_request ''tok_root'') ''user_root'' 1700000000000000
     = (Inl (HTTPException 400 (Detail ''Cannot delete your own account'')), demo_db)"
  using admin_self_delete_refused [of demo_db "cookie_request ''tok_root''" 1700000000000000
      "demo_users ! 3" "''user_root''"]
  by (simp add: demo_admin demo_users_sel)

end
